theory Spec2Isabelle
  imports Complex_Main "HOL-Library.AList"
begin

section \<open>Values, keyword dictionaries and errors\<close>

text \<open>
  The package computes with Python numbers (\<open>int\<close> and \<open>float\<close> mixed freely, with true
  division). The embedding of the constructors reads every number as a \<open>real\<close>: the
  formulas are the exact ones, and the rounding of binary floating point is outside the
  model. The bounds check \<open>check_ul\<close> is given a second time on the Python numbers with
  the infinities and \<open>nan\<close>, where its comparisons behave differently.

  Every constructor threads one keyword dictionary \<open>kwargs\<close> through its body. A Python
  \<open>dict\<close> keeps insertion order and an assignment to an existing key keeps the key's
  place, which is \<open>AList.update\<close> on an association list. Its values are numbers, the
  route string and the list of names to skip. The theorems below read dictionaries by
  key (\<open>map_of\<close>), so they do not depend on the order of the entries.
\<close>

datatype pyval = Num real | Str string | Names "string list"

type_synonym kwargs = "(string \<times> pyval) list"

text \<open>
  An exception message is built by \<open>+\<close> on strings; a number enters it through \<open>str\<close>.
  The message is kept as the list of the concatenated pieces, a number as itself.
\<close>

datatype msg_part = Lit string | Val real

datatype error =
    BoundsException "msg_part list"
  | ScenarioException "msg_part list"
  | RouteException "msg_part list"
  | NameError string
  | KeyError string
  | TypeError
  | ZeroDivisionError

definition andthen :: "error + 'a \<Rightarrow> ('a \<Rightarrow> error + 'b) \<Rightarrow> error + 'b" where
  "andthen m f = (case m of Inl e \<Rightarrow> Inl e | Inr v \<Rightarrow> f v)"

text \<open>Python's \<open>/\<close> raises on a zero divisor, for floats as for ints.\<close>

definition py_div :: "real \<Rightarrow> real \<Rightarrow> error + real" where
  "py_div a b = (if b = 0 then Inl ZeroDivisionError else Inr (a / b))"

text \<open>
  \<open>d[k]\<close> read as an operand of arithmetic: a missing key is a \<open>KeyError\<close>. The
  package stores numbers under the keys it computes with; an entry that is no number
  is reported as \<open>TypeError\<close>.
\<close>

definition subscr :: "kwargs \<Rightarrow> string \<Rightarrow> error + real" where
  "subscr kw k =
     (case map_of kw k of
        None \<Rightarrow> Inl (KeyError k)
      | Some (Num r) \<Rightarrow> Inr r
      | Some _ \<Rightarrow> Inl TypeError)"

text \<open>
  A call \<open>f(**kwargs)\<close> binds each named parameter of \<open>f\<close> from the dictionary; a
  required parameter that is missing is a \<open>TypeError\<close>.
\<close>

definition param :: "kwargs \<Rightarrow> string \<Rightarrow> error + real" where
  "param kw k =
     (case map_of kw k of
        None \<Rightarrow> Inl TypeError
      | Some (Num r) \<Rightarrow> Inr r
      | Some _ \<Rightarrow> Inl TypeError)"

section \<open>checks.py\<close>

definition bounds_message :: "string \<Rightarrow> real \<Rightarrow> real \<Rightarrow> msg_part list" where
  "bounds_message name min_val max_val =
     [Lit ''bounds of '', Lit name, Lit '' are outside of range ('',
      Val min_val, Lit '' <= value <= '', Val max_val, Lit '')'']"

definition check_ul :: "string \<Rightarrow> real \<Rightarrow> real \<Rightarrow> real \<Rightarrow> error + real" where
  "check_ul name val min_val max_val =
     (if val < min_val \<or> val > max_val
      then Inl (BoundsException (bounds_message name min_val max_val))
      else Inr val)"


text \<open>
  \<open>check_ul\<close> on everything a Python number can be. The two comparisons of its condition
  are the only operations it applies to \<open>value\<close>, \<open>min_val\<close> and \<open>max_val\<close>, and Python
  defines them for the infinities and for \<open>nan\<close> as well: the infinities lie below and
  above every finite number, and every comparison with \<open>nan\<close> is false. A finite number
  (an \<open>int\<close> or a finite \<open>float\<close>) is read as the real it denotes; Python compares those
  exactly. \<open>str\<close> prints the other three as \<open>inf\<close>, \<open>-inf\<close> and \<open>nan\<close>.
\<close>

datatype pynum = Fin real | PosInf | NegInf | NaN

fun py_lt :: "pynum \<Rightarrow> pynum \<Rightarrow> bool" where
  "py_lt NaN y = False"
| "py_lt x NaN = False"
| "py_lt (Fin a) (Fin b) = (a < b)"
| "py_lt (Fin a) PosInf = True"
| "py_lt (Fin a) NegInf = False"
| "py_lt PosInf y = False"
| "py_lt NegInf NegInf = False"
| "py_lt NegInf y = True"

text \<open>Python's \<open>x <= y\<close>, in which the specification states the range.\<close>

definition py_le :: "pynum \<Rightarrow> pynum \<Rightarrow> bool" where
  "py_le x y \<longleftrightarrow> x \<noteq> NaN \<and> y \<noteq> NaN \<and> \<not> py_lt y x"

fun str_num :: "pynum \<Rightarrow> msg_part" where
  "str_num (Fin r) = Val r"
| "str_num PosInf = Lit ''inf''"
| "str_num NegInf = Lit ''-inf''"
| "str_num NaN = Lit ''nan''"

definition bounds_message_num :: "string \<Rightarrow> pynum \<Rightarrow> pynum \<Rightarrow> msg_part list" where
  "bounds_message_num name min_val max_val =
     [Lit ''bounds of '', Lit name, Lit '' are outside of range ('',
      str_num min_val, Lit '' <= value <= '', str_num max_val, Lit '')'']"

definition check_ul_num :: "string \<Rightarrow> pynum \<Rightarrow> pynum \<Rightarrow> pynum \<Rightarrow> error + pynum" where
  "check_ul_num name val min_val max_val =
     (if py_lt val min_val \<or> py_lt max_val val
      then Inl (BoundsException (bounds_message_num name min_val max_val))
      else Inr val)"

text \<open>
  On finite numbers this is the function \<open>check_ul\<close> on the reals that the constructors
  below are written with (lemma \<open>check_ul_num_Fin\<close>).
\<close>

text \<open>
  \<open>check_l\<close> has the parameters \<open>name\<close>, \<open>value\<close> and \<open>min_val\<close> only. Its \<open>raise\<close>
  builds the message of \<open>check_ul\<close>, which reads \<open>max_val\<close>: the name is bound nowhere
  in \<open>check_l\<close> or in the module, so evaluating the message raises \<open>NameError\<close> and
  the \<open>BoundsException\<close> is never constructed.
\<close>

definition check_l :: "string \<Rightarrow> real \<Rightarrow> real \<Rightarrow> error + real" where
  "check_l name val min_val =
     (if val < min_val then Inl (NameError ''max_val'') else Inr val)"

definition check_l_default_min :: real where "check_l_default_min = 0"

text \<open>
  \<open>check_u\<close> has no \<open>min_val\<close>, and its condition starts with \<open>value < min_val\<close>: every
  call raises \<open>NameError\<close>.
\<close>

definition check_u :: "string \<Rightarrow> real \<Rightarrow> real \<Rightarrow> error + real" where
  "check_u name val max_val = Inl (NameError ''min_val'')"

section \<open>exposures.py\<close>

text \<open>
  \<open>potential_dose_rate(route, **kwargs)\<close>. The products are evaluated left to right, so
  the first missing key is the one reported. The last branch raises \<open>RouteException\<close>,
  a name that \<open>exposures.py\<close> neither defines nor imports (the class lives in
  \<open>checks.py\<close>): the \<open>raise\<close> statement fails with \<open>NameError\<close>.
\<close>

definition potential_dose_rate :: "pyval \<Rightarrow> kwargs \<Rightarrow> error + real" where
  "potential_dose_rate route kw =
     (if route = Str ''dermal'' then
        (if map_of kw ''SQu'' \<noteq> None then
           andthen (subscr kw ''SQu'') (\<lambda>squ.
           andthen (subscr kw ''Yderm'') (\<lambda>yderm.
           andthen (subscr kw ''FT'') (\<lambda>ft.
           Inr (squ * yderm * ft))))
         else
           andthen (subscr kw ''S'') (\<lambda>s.
           andthen (subscr kw ''Qu'') (\<lambda>qu.
           andthen (subscr kw ''Yderm'') (\<lambda>yderm.
           andthen (subscr kw ''FT'') (\<lambda>ft.
           Inr (s * qu * yderm * ft))))))
      else if route = Str ''inhalation'' then
        (if map_of kw ''Cm'' \<noteq> None then
           andthen (subscr kw ''Cm'') (\<lambda>cm.
           andthen (subscr kw ''b'') (\<lambda>b.
           andthen (subscr kw ''h'') (\<lambda>h.
           Inr (cm * b * h))))
         else
           andthen (subscr kw ''EF'') (\<lambda>ef.
           andthen (subscr kw ''AH'') (\<lambda>ah.
           andthen (subscr kw ''Ys'') (\<lambda>ys.
           andthen (subscr kw ''Sd'') (\<lambda>sd.
           Inr (ef * ah * ys * sd))))))
      else Inl (NameError ''RouteException''))"

definition workers_exposed :: "real \<Rightarrow> real \<Rightarrow> real" where
  "workers_exposed nwexp ns = nwexp * ns"

definition days_per_year :: real where
  "days_per_year = 365"

definition daily_dose :: "real \<Rightarrow> real \<Rightarrow> real \<Rightarrow> real \<Rightarrow> real \<Rightarrow> error + real" where
  "daily_dose pdr ed ey bw t = py_div (pdr * ed * ey) (bw * t * days_per_year)"

definition acute_potential_dose_rate :: "real \<Rightarrow> real \<Rightarrow> error + real" where
  "acute_potential_dose_rate pdr bw = py_div pdr bw"

text \<open>The calls \<open>exposures.f(**kwargs)\<close> of the constructors.\<close>

definition call_potential_dose_rate :: "kwargs \<Rightarrow> error + real" where
  "call_potential_dose_rate kw =
     (case map_of kw ''route'' of
        None \<Rightarrow> Inl TypeError
      | Some r \<Rightarrow> potential_dose_rate r (AList.delete ''route'' kw))"

definition call_workers_exposed :: "kwargs \<Rightarrow> error + real" where
  "call_workers_exposed kw =
     andthen (param kw ''NWexp'') (\<lambda>nwexp.
     andthen (param kw ''NS'') (\<lambda>ns.
     Inr (workers_exposed nwexp ns)))"

text \<open>
  \<open>daily_dose(t=..., **kwargs)\<close> passes \<open>t\<close> by name next to the dictionary: a key \<open>'t'\<close>
  in the dictionary would be a second value for the parameter, a \<open>TypeError\<close>.
\<close>

definition call_daily_dose :: "real \<Rightarrow> kwargs \<Rightarrow> error + real" where
  "call_daily_dose t kw =
     (if map_of kw ''t'' \<noteq> None then Inl TypeError
      else
        andthen (param kw ''PDR'') (\<lambda>pdr.
        andthen (param kw ''ED'') (\<lambda>ed.
        andthen (param kw ''EY'') (\<lambda>ey.
        andthen (param kw ''BW'') (\<lambda>bw.
        daily_dose pdr ed ey bw t)))))"

definition call_acute_potential_dose_rate :: "kwargs \<Rightarrow> error + real" where
  "call_acute_potential_dose_rate kw =
     andthen (param kw ''PDR'') (\<lambda>pdr.
     andthen (param kw ''BW'') (\<lambda>bw.
     acute_potential_dose_rate pdr bw))"

section \<open>Scenario strings\<close>

text \<open>
  \<open>str.lower\<close> on the ASCII letters (a string here is a list of bytes, and the scenario
  keys of the package are ASCII), and \<open>str.replace(old, new)\<close>: a scan from the left
  that replaces each occurrence found and continues behind it. The package calls it
  with \<open>old = ", "\<close> only; an empty \<open>old\<close> is left alone here.
\<close>

definition char_lower :: "char \<Rightarrow> char" where
  "char_lower c =
     (case map_of (zip ''ABCDEFGHIJKLMNOPQRSTUVWXYZ'' ''abcdefghijklmnopqrstuvwxyz'') c of
        Some l \<Rightarrow> l
      | None \<Rightarrow> c)"

definition str_lower :: "string \<Rightarrow> string" where
  "str_lower s = map char_lower s"

fun starts_with :: "string \<Rightarrow> string \<Rightarrow> bool" where
  "starts_with s [] = True"
| "starts_with [] (p # ps) = False"
| "starts_with (c # cs) (p # ps) = (c = p \<and> starts_with cs ps)"

function str_replace :: "string \<Rightarrow> string \<Rightarrow> string \<Rightarrow> string" where
  "str_replace [] old new = []"
| "str_replace (c # cs) old new =
     (if old \<noteq> [] \<and> starts_with (c # cs) old
      then new @ str_replace (drop (length old) (c # cs)) old new
      else c # str_replace cs old new)"
  by pat_completeness auto
termination
  by (relation "measure (\<lambda>(s, old, new). length s)") (auto simp: neq_Nil_conv)

text \<open>\<open>str(scenario).lower().replace(", ", ",")\<close>\<close>

definition normalize_scenario :: "string \<Rightarrow> string" where
  "normalize_scenario scenario = str_replace (str_lower scenario) '', '' '',''"

text \<open>
  Every constructor rejects a scenario with \<open>raise ScenarioException(...)\<close>. Both
  \<open>dermal.py\<close> and \<open>inhalation.py\<close> import the module \<open>checks\<close> and never the class, so
  the name \<open>ScenarioException\<close> is unbound there and the statement raises \<open>NameError\<close>
  before any message is built.
\<close>

definition raise_ScenarioException :: "error + 'a" where
  "raise_ScenarioException = Inl (NameError ''ScenarioException'')"

section \<open>Model instances and the shared steps of the constructors\<close>

text \<open>
  The arguments every constructor hands to its family's \<open>__init__\<close>. The attribute
  \<open>equations\<close> of an instance is a fixed documentation text and is left out.
\<close>

record common =
  ED :: real
  NWexp :: real
  NS :: real
  EY :: real
  BW :: real
  ATc :: real
  AT :: real

record model =
  route :: string
  model_name :: string
  scenario :: string
  inputs :: kwargs
  outputs :: kwargs

definition initial_skips :: "string list" where
  "initial_skips = [''self'', ''model_name'', ''equations'', ''scenario'', ''route'', ''skips'']"

text \<open>
  \<open>model_args\<close>: the items whose key is not in \<open>kwargs['skips']\<close>, in order. The
  comprehension reads \<open>kwargs['skips']\<close> once per item, so an empty dictionary gives an
  empty result. In this package the entry is always a list of names.
\<close>

definition skips_of :: "kwargs \<Rightarrow> error + string list" where
  "skips_of kw =
     (case map_of kw ''skips'' of
        None \<Rightarrow> Inl (KeyError ''skips'')
      | Some (Names sk) \<Rightarrow> Inr sk
      | Some _ \<Rightarrow> Inl TypeError)"

definition model_args :: "kwargs \<Rightarrow> error + kwargs" where
  "model_args kw =
     (if kw = [] then Inr []
      else andthen (skips_of kw) (\<lambda>sk. Inr (filter (\<lambda>(k, v). k \<notin> set sk) kw)))"

text \<open>
  \<open>self.inputs = self.model_args(kwargs)\<close> followed by
  \<open>kwargs['skips'] = kwargs['skips'] + list(kwargs.keys())\<close>: the inputs and the
  dictionary in which every key present so far is skipped.
\<close>

definition snapshot_inputs :: "kwargs \<Rightarrow> error + (kwargs \<times> kwargs)" where
  "snapshot_inputs kw =
     andthen (model_args kw) (\<lambda>ins.
     andthen (skips_of kw) (\<lambda>sk.
     Inr (ins, AList.update ''skips'' (Names (sk @ map fst kw)) kw)))"

text \<open>
  The five lines
  \<^verbatim>\<open>kwargs['PDR'] = exposures.potential_dose_rate(**kwargs)\<close>,
  \<^verbatim>\<open>kwargs['NW'] = exposures.workers_exposed(**kwargs)\<close>,
  \<^verbatim>\<open>kwargs['LADD'] = exposures.daily_dose(t=kwargs['ATc'], **kwargs)\<close>,
  \<^verbatim>\<open>kwargs['ADD'] = exposures.daily_dose(t=kwargs['AT'], **kwargs)\<close>,
  \<^verbatim>\<open>kwargs['APDR'] = exposures.acute_potential_dose_rate(**kwargs)\<close>
  that every constructor repeats.
\<close>

definition exposure_outputs :: "kwargs \<Rightarrow> error + kwargs" where
  "exposure_outputs kw0 =
     andthen (call_potential_dose_rate kw0) (\<lambda>pdr.
     let kw1 = AList.update ''PDR'' (Num pdr) kw0 in
     andthen (call_workers_exposed kw1) (\<lambda>nw.
     let kw2 = AList.update ''NW'' (Num nw) kw1 in
     andthen (subscr kw2 ''ATc'') (\<lambda>atc.
     andthen (call_daily_dose atc kw2) (\<lambda>ladd.
     let kw3 = AList.update ''LADD'' (Num ladd) kw2 in
     andthen (subscr kw3 ''AT'') (\<lambda>avg.
     andthen (call_daily_dose avg kw3) (\<lambda>add.
     let kw4 = AList.update ''ADD'' (Num add) kw3 in
     andthen (call_acute_potential_dose_rate kw4) (\<lambda>apdr.
     Inr (AList.update ''APDR'' (Num apdr) kw4))))))))"

text \<open>
  \<open>self.outputs = self.model_args(kwargs)\<close> followed by
  \<open>self.outputs[name] = self.outputs.pop('PDR')\<close>, where \<open>name\<close> is \<open>'Dexp'\<close> in the
  dermal family and \<open>'I'\<close> in the inhalation family.
\<close>

definition freeze_outputs :: "string \<Rightarrow> kwargs \<Rightarrow> error + kwargs" where
  "freeze_outputs name kw =
     andthen (model_args kw) (\<lambda>outs.
     case map_of outs ''PDR'' of
       None \<Rightarrow> Inl (KeyError ''PDR'')
     | Some v \<Rightarrow> Inr (AList.update name v (AList.delete ''PDR'' outs)))"

section \<open>dermal.py\<close>

text \<open>
  \<open>dermal_model.__init__\<close>: the dictionary literal evaluates its checks in order. The
  entry \<open>"AT"\<close> is \<open>EY\<close>; the parameter \<open>AT\<close> is not read.
\<close>

definition dermal_model_init :: "common \<Rightarrow> error + kwargs" where
  "dermal_model_init c =
     andthen (check_ul ''ED'' (ED c) 0 365) (\<lambda>ed.
     andthen (check_l ''EY'' (EY c) 0) (\<lambda>ey.
     andthen (check_l ''BW'' (BW c) 0) (\<lambda>bw.
     andthen (check_l ''ATc'' (ATc c) 0) (\<lambda>atc.
     Inr [(''ED'', Num ed), (''NWexp'', Num (NWexp c)), (''NS'', Num (NS c)),
          (''EY'', Num ey), (''BW'', Num bw), (''ATc'', Num atc),
          (''AT'', Num (EY c)), (''skips'', Names initial_skips)]))))"

text \<open>
  The six constructors. Each takes the arguments of its Python signature in order,
  the seven family arguments as one \<open>common\<close> record at the end. A constructor that
  raises leaves no instance behind: the result is the error alone.
\<close>

text \<open>
  The six constructors. Each takes the arguments of its Python signature in order,
  the seven family arguments as one \<open>common\<close> record at the end. A constructor that
  raises leaves no instance behind: the result is the error alone.

  The \<open>if\<close>/\<open>elif\<close> block in which a constructor stores the defaults of its scenario
  is the function \<open>\<dots>_scenario_defaults\<close> written before it, applied to \<open>self.scenario\<close>;
  the block has no \<open>else\<close>, so a scenario that matches no branch stores nothing.
\<close>

text \<open>
  The six constructors. Each takes the arguments of its Python signature in order,
  the seven family arguments as one \<open>common\<close> record at the end. A constructor that
  raises leaves no instance behind: the result is the error alone.

  The \<open>if\<close>/\<open>elif\<close> block in which a constructor stores the defaults of its scenario
  is the function \<open>\<dots>_scenario_defaults\<close> written before it, applied to \<open>self.scenario\<close>;
  the block has no \<open>else\<close>, so a scenario that matches no branch stores nothing.
\<close>

text \<open>
  The six constructors. Each takes the arguments of its Python signature in order,
  the seven family arguments as one \<open>common\<close> record at the end. A constructor that
  raises leaves no instance behind: the result is the error alone.

  The \<open>if\<close>/\<open>elif\<close> block in which a constructor stores the defaults of its scenario
  is the function \<open>\<dots>_scenario_defaults\<close> written before it, applied to \<open>self.scenario\<close>;
  the block has no \<open>else\<close>, so a scenario that matches no branch stores nothing.
\<close>

text \<open>
  The six constructors. Each takes the arguments of its Python signature in order,
  the seven family arguments as one \<open>common\<close> record at the end. A constructor that
  raises leaves no instance behind: the result is the error alone.

  The \<open>if\<close>/\<open>elif\<close> block in which a constructor stores the defaults of its scenario
  is the function \<open>\<dots>_scenario_defaults\<close> written before it, applied to \<open>self.scenario\<close>;
  the block has no \<open>else\<close>, so a scenario that matches no branch stores nothing.
\<close>

text \<open>
  The six constructors. Each takes the arguments of its Python signature in order,
  the seven family arguments as one \<open>common\<close> record at the end. A constructor that
  raises leaves no instance behind: the result is the error alone.

  The \<open>if\<close>/\<open>elif\<close> block in which a constructor stores the defaults of its scenario
  is the function \<open>\<dots>_scenario_defaults\<close> written before it, applied to \<open>self.scenario\<close>;
  the block has no \<open>else\<close>, so a scenario that matches no branch stores nothing.
\<close>

text \<open>
  The six constructors. Each takes the arguments of its Python signature in order,
  the seven family arguments as one \<open>common\<close> record at the end. A constructor that
  raises leaves no instance behind: the result is the error alone.

  The \<open>if\<close>/\<open>elif\<close> block in which a constructor stores the defaults of its scenario
  is the function \<open>\<dots>_scenario_defaults\<close> written before it, applied to \<open>self.scenario\<close>;
  the block has no \<open>else\<close>, so a scenario that matches no branch stores nothing.
\<close>

text \<open>
  The six constructors. Each takes the arguments of its Python signature in order,
  the seven family arguments as one \<open>common\<close> record at the end. A constructor that
  raises leaves no instance behind: the result is the error alone.

  The \<open>if\<close>/\<open>elif\<close> block in which a constructor stores the defaults of its scenario
  is the function \<open>\<dots>_scenario_defaults\<close> written before it, applied to \<open>self.scenario\<close>;
  the block has no \<open>else\<close>, so a scenario that matches no branch stores nothing.
\<close>

definition one_hand_liquid_contact_get_scenarios :: "string list" where
  "one_hand_liquid_contact_get_scenarios = [''low'', ''high'', ''user'']"

definition one_hand_liquid_contact_scenario_defaults ::
  "string \<Rightarrow> real \<Rightarrow> kwargs \<Rightarrow> kwargs" where
  "one_hand_liquid_contact_scenario_defaults sc Qu kw =
     (if sc = ''low'' then AList.update ''Qu'' (Num 0.7) kw
      else if sc = ''high'' then AList.update ''Qu'' (Num 2.1) kw
      else if sc = ''user'' then AList.update ''Qu'' (Num Qu) kw
      else kw)"

definition one_hand_liquid_contact ::
  "real \<Rightarrow> string \<Rightarrow> real \<Rightarrow> real \<Rightarrow> real \<Rightarrow> common \<Rightarrow> error + model" where
  "one_hand_liquid_contact Yderm scenario' S Qu FT c =
     andthen (dermal_model_init c) (\<lambda>kw.
     let sc = normalize_scenario scenario' in
     if sc \<notin> set one_hand_liquid_contact_get_scenarios then raise_ScenarioException else
     let kw = AList.update ''route'' (Str ''dermal'') kw in
     let kw = AList.update ''S'' (Num S) kw in
     let kw = one_hand_liquid_contact_scenario_defaults sc Qu kw in
     andthen (check_l ''FT'' FT 0) (\<lambda>ft.
     let kw = AList.update ''FT'' (Num ft) kw in
     andthen (check_ul ''Yderm'' Yderm 0 1) (\<lambda>yderm.
     let kw = AList.update ''Yderm'' (Num yderm) kw in
     andthen (snapshot_inputs kw) (\<lambda>(ins, kw).
     andthen (exposure_outputs kw) (\<lambda>kw.
     andthen (freeze_outputs ''Dexp'' kw) (\<lambda>outs.
     Inr \<lparr>route = ''dermal'',
          model_name = ''EPA-OPPT 1-Hand Dermal Contact with Liquid'',
          scenario = sc, inputs = ins, outputs = outs\<rparr>))))))"

definition two_hand_liquid_contact_get_scenarios :: "string list" where
  "two_hand_liquid_contact_get_scenarios = [''low'', ''high'', ''user'']"

definition two_hand_liquid_contact_scenario_defaults ::
  "string \<Rightarrow> real \<Rightarrow> kwargs \<Rightarrow> kwargs" where
  "two_hand_liquid_contact_scenario_defaults sc Qu kw =
     (if sc = ''low'' then AList.update ''Qu'' (Num 0.7) kw
      else if sc = ''high'' then AList.update ''Qu'' (Num 2.1) kw
      else if sc = ''user'' then AList.update ''Qu'' (Num Qu) kw
      else kw)"

definition two_hand_liquid_contact ::
  "real \<Rightarrow> string \<Rightarrow> real \<Rightarrow> real \<Rightarrow> real \<Rightarrow> common \<Rightarrow> error + model" where
  "two_hand_liquid_contact Yderm scenario' S Qu FT c =
     andthen (dermal_model_init c) (\<lambda>kw.
     let sc = normalize_scenario scenario' in
     if sc \<notin> set two_hand_liquid_contact_get_scenarios then raise_ScenarioException else
     let kw = AList.update ''route'' (Str ''dermal'') kw in
     let kw = AList.update ''S'' (Num S) kw in
     let kw = two_hand_liquid_contact_scenario_defaults sc Qu kw in
     andthen (check_l ''FT'' FT 0) (\<lambda>ft.
     let kw = AList.update ''FT'' (Num ft) kw in
     andthen (check_ul ''Yderm'' Yderm 0 1) (\<lambda>yderm.
     let kw = AList.update ''Yderm'' (Num yderm) kw in
     andthen (snapshot_inputs kw) (\<lambda>(ins, kw).
     andthen (exposure_outputs kw) (\<lambda>kw.
     andthen (freeze_outputs ''Dexp'' kw) (\<lambda>outs.
     Inr \<lparr>route = ''dermal'',
          model_name = ''EPA-OPPT 2-Hand Dermal Contact with Liquid'',
          scenario = sc, inputs = ins, outputs = outs\<rparr>))))))"

definition two_hand_liquid_immersion_get_scenarios :: "string list" where
  "two_hand_liquid_immersion_get_scenarios = [''low'', ''high'', ''user'']"

definition two_hand_liquid_immersion_scenario_defaults ::
  "string \<Rightarrow> real \<Rightarrow> kwargs \<Rightarrow> kwargs" where
  "two_hand_liquid_immersion_scenario_defaults sc Qu kw =
     (if sc = ''low'' then AList.update ''Qu'' (Num 1.3) kw
      else if sc = ''high'' then AList.update ''Qu'' (Num 10.3) kw
      else if sc = ''user'' then AList.update ''Qu'' (Num Qu) kw
      else kw)"

definition two_hand_liquid_immersion ::
  "real \<Rightarrow> string \<Rightarrow> real \<Rightarrow> real \<Rightarrow> real \<Rightarrow> common \<Rightarrow> error + model" where
  "two_hand_liquid_immersion Yderm scenario' S Qu FT c =
     andthen (dermal_model_init c) (\<lambda>kw.
     let sc = normalize_scenario scenario' in
     if sc \<notin> set two_hand_liquid_immersion_get_scenarios then raise_ScenarioException else
     let kw = AList.update ''route'' (Str ''dermal'') kw in
     let kw = AList.update ''S'' (Num S) kw in
     let kw = two_hand_liquid_immersion_scenario_defaults sc Qu kw in
     andthen (check_l ''FT'' FT 0) (\<lambda>ft.
     let kw = AList.update ''FT'' (Num ft) kw in
     andthen (check_ul ''Yderm'' Yderm 0 1) (\<lambda>yderm.
     let kw = AList.update ''Yderm'' (Num yderm) kw in
     andthen (snapshot_inputs kw) (\<lambda>(ins, kw).
     andthen (exposure_outputs kw) (\<lambda>kw.
     andthen (freeze_outputs ''Dexp'' kw) (\<lambda>outs.
     Inr \<lparr>route = ''dermal'',
          model_name = ''EPA-OPPT 2-Hand Dermal Immersion with Liquid'',
          scenario = sc, inputs = ins, outputs = outs\<rparr>))))))"

definition two_hand_solids_contact_get_scenarios :: "string list" where
  "two_hand_solids_contact_get_scenarios = [''high'', ''user'']"

definition two_hand_solids_contact_scenario_defaults ::
  "string \<Rightarrow> real \<Rightarrow> kwargs \<Rightarrow> kwargs" where
  "two_hand_solids_contact_scenario_defaults sc SQu kw =
     (if sc = ''high'' then AList.update ''SQu'' (Num 3100) kw
      else if sc = ''user'' then AList.update ''SQu'' (Num SQu) kw
      else kw)"

definition two_hand_solids_contact ::
  "real \<Rightarrow> string \<Rightarrow> real \<Rightarrow> real \<Rightarrow> common \<Rightarrow> error + model" where
  "two_hand_solids_contact Yderm scenario' SQu FT c =
     andthen (dermal_model_init c) (\<lambda>kw.
     let sc = normalize_scenario scenario' in
     if sc \<notin> set two_hand_solids_contact_get_scenarios then raise_ScenarioException else
     let kw = AList.update ''route'' (Str ''dermal'') kw in
     let kw = two_hand_solids_contact_scenario_defaults sc SQu kw in
     andthen (check_l ''FT'' FT 0) (\<lambda>ft.
     let kw = AList.update ''FT'' (Num ft) kw in
     andthen (check_ul ''Yderm'' Yderm 0 1) (\<lambda>yderm.
     let kw = AList.update ''Yderm'' (Num yderm) kw in
     andthen (snapshot_inputs kw) (\<lambda>(ins, kw).
     andthen (exposure_outputs kw) (\<lambda>kw.
     andthen (freeze_outputs ''Dexp'' kw) (\<lambda>outs.
     Inr \<lparr>route = ''dermal'',
          model_name = ''EPA-OPPT 2-Hand Dermal Contact with Solids'',
          scenario = sc, inputs = ins, outputs = outs\<rparr>))))))"

definition two_hand_container_surface_contact_get_scenarios :: "string list" where
  "two_hand_container_surface_contact_get_scenarios = [''high'', ''user'']"

definition two_hand_container_surface_contact_scenario_defaults ::
  "string \<Rightarrow> real \<Rightarrow> kwargs \<Rightarrow> kwargs" where
  "two_hand_container_surface_contact_scenario_defaults sc SQu kw =
     (if sc = ''high'' then AList.update ''SQu'' (Num 1100) kw
      else if sc = ''user'' then AList.update ''SQu'' (Num SQu) kw
      else kw)"

definition two_hand_container_surface_contact ::
  "real \<Rightarrow> string \<Rightarrow> real \<Rightarrow> real \<Rightarrow> common \<Rightarrow> error + model" where
  "two_hand_container_surface_contact Yderm scenario' SQu FT c =
     andthen (dermal_model_init c) (\<lambda>kw.
     let sc = normalize_scenario scenario' in
     if sc \<notin> set two_hand_container_surface_contact_get_scenarios then raise_ScenarioException else
     let kw = AList.update ''route'' (Str ''dermal'') kw in
     let kw = two_hand_container_surface_contact_scenario_defaults sc SQu kw in
     andthen (check_l ''FT'' FT 0) (\<lambda>ft.
     let kw = AList.update ''FT'' (Num ft) kw in
     andthen (check_ul ''Yderm'' Yderm 0 1) (\<lambda>yderm.
     let kw = AList.update ''Yderm'' (Num yderm) kw in
     andthen (snapshot_inputs kw) (\<lambda>(ins, kw).
     andthen (exposure_outputs kw) (\<lambda>kw.
     andthen (freeze_outputs ''Dexp'' kw) (\<lambda>outs.
     Inr \<lparr>route = ''dermal'',
          model_name = ''EPA-OPPT 2-Hand Dermal Contact with Container Surfaces'',
          scenario = sc, inputs = ins, outputs = outs\<rparr>))))))"

definition user_defined_dermal_get_scenarios :: "string list" where
  "user_defined_dermal_get_scenarios = [''low'', ''high'', ''user'']"

definition user_defined_dermal_scenario_defaults ::
  "string \<Rightarrow> real \<Rightarrow> real \<Rightarrow> kwargs \<Rightarrow> kwargs" where
  "user_defined_dermal_scenario_defaults sc S Qu kw =
     (if sc = ''low'' then AList.update ''Qu'' (Num 0.7) (AList.update ''S'' (Num 535) kw)
      else if sc = ''high'' then AList.update ''Qu'' (Num 2.1) (AList.update ''S'' (Num 1070) kw)
      else if sc = ''user'' then AList.update ''Qu'' (Num Qu) (AList.update ''S'' (Num S) kw)
      else kw)"

definition user_defined_dermal ::
  "real \<Rightarrow> string \<Rightarrow> real \<Rightarrow> real \<Rightarrow> real \<Rightarrow> common \<Rightarrow> error + model" where
  "user_defined_dermal Yderm scenario' S Qu FT c =
     andthen (dermal_model_init c) (\<lambda>kw.
     let sc = normalize_scenario scenario' in
     if sc \<notin> set user_defined_dermal_get_scenarios then raise_ScenarioException else
     let kw = AList.update ''route'' (Str ''dermal'') kw in
     let kw = user_defined_dermal_scenario_defaults sc S Qu kw in
     andthen (check_l ''FT'' FT 0) (\<lambda>ft.
     let kw = AList.update ''FT'' (Num ft) kw in
     andthen (check_ul ''Yderm'' Yderm 0 1) (\<lambda>yderm.
     let kw = AList.update ''Yderm'' (Num yderm) kw in
     andthen (snapshot_inputs kw) (\<lambda>(ins, kw).
     andthen (exposure_outputs kw) (\<lambda>kw.
     andthen (freeze_outputs ''Dexp'' kw) (\<lambda>outs.
     Inr \<lparr>route = ''dermal'',
          model_name = ''User-defined Dermal'',
          scenario = sc, inputs = ins, outputs = outs\<rparr>))))))"

section \<open>inhalation.py\<close>

text \<open>\<open>inhalation_model.__init__\<close>: as in the dermal family, but the entry \<open>"AT"\<close> is \<open>AT\<close>.\<close>

definition inhalation_model_init :: "common \<Rightarrow> error + kwargs" where
  "inhalation_model_init c =
     andthen (check_ul ''ED'' (ED c) 0 365) (\<lambda>ed.
     andthen (check_l ''EY'' (EY c) 0) (\<lambda>ey.
     andthen (check_l ''BW'' (BW c) 0) (\<lambda>bw.
     andthen (check_l ''ATc'' (ATc c) 0) (\<lambda>atc.
     Inr [(''ED'', Num ed), (''NWexp'', Num (NWexp c)), (''NS'', Num (NS c)),
          (''EY'', Num ey), (''BW'', Num bw), (''ATc'', Num atc),
          (''AT'', Num (AT c)), (''skips'', Names initial_skips)]))))"

definition small_volume_solids_handling_get_scenarios :: "string list" where
  "small_volume_solids_handling_get_scenarios = [''typical'', ''worst-case'', ''user'']"

definition small_volume_solids_handling_scenario_defaults ::
  "string \<Rightarrow> real \<Rightarrow> kwargs \<Rightarrow> kwargs" where
  "small_volume_solids_handling_scenario_defaults sc EF kw =
     (if sc = ''typical'' then AList.update ''EF'' (Num 0.0477) kw
      else if sc = ''worst-case'' then AList.update ''EF'' (Num 0.161) kw
      else if sc = ''user'' then AList.update ''EF'' (Num EF) kw
      else kw)"

definition small_volume_solids_handling ::
  "real \<Rightarrow> string \<Rightarrow> real \<Rightarrow> real \<Rightarrow> real \<Rightarrow> common \<Rightarrow> error + model" where
  "small_volume_solids_handling Ys scenario' EF AH Sd c =
     andthen (inhalation_model_init c) (\<lambda>kw.
     let sc = normalize_scenario scenario' in
     if sc \<notin> set small_volume_solids_handling_get_scenarios then raise_ScenarioException else
     let kw = AList.update ''route'' (Str ''inhalation'') kw in
     andthen (check_ul ''AH'' AH 0 54) (\<lambda>ah.
     let kw = AList.update ''AH'' (Num ah) kw in
     andthen (check_ul ''Ys'' Ys 0 1) (\<lambda>ys.
     let kw = AList.update ''Ys'' (Num ys) kw in
     andthen (check_ul ''Sd'' Sd 0 3) (\<lambda>sd.
     let kw = AList.update ''Sd'' (Num sd) kw in
     let kw = small_volume_solids_handling_scenario_defaults sc EF kw in
     andthen (snapshot_inputs kw) (\<lambda>(ins, kw).
     andthen (exposure_outputs kw) (\<lambda>kw.
     andthen (freeze_outputs ''I'' kw) (\<lambda>outs.
     Inr \<lparr>route = ''inhalation'',
          model_name = ''EPA-OPPT Small Volume Solids Handling'',
          scenario = sc, inputs = ins, outputs = outs\<rparr>)))))))"

text \<open>
  \<open>mass_balance\<close> stores its own arguments unchecked, and stores \<open>EY\<close>, \<open>BW\<close>, \<open>ATc\<close>
  and \<open>AT\<close> a second time. \<open>_Cv\<close> and \<open>_Cm\<close> are called as \<open>self._Cv(**kwargs)\<close>
  and \<open>self._Cm(**kwargs)\<close>.
\<close>

definition mass_balance_Cv :: "kwargs \<Rightarrow> error + real" where
  "mass_balance_Cv kw =
     andthen (param kw ''T'') (\<lambda>T.
     andthen (param kw ''G'') (\<lambda>G.
     andthen (param kw ''MW'') (\<lambda>MW.
     andthen (param kw ''Q'') (\<lambda>Q.
     andthen (param kw ''k'') (\<lambda>k.
     andthen (param kw ''X'') (\<lambda>X.
     andthen (param kw ''VP'') (\<lambda>VP.
     andthen (py_div (170000 * T * G) (MW * Q * k)) (\<lambda>r.
     Inr (min r (1000000 * X * VP / 760))))))))))"

definition mass_balance_Cm :: "kwargs \<Rightarrow> error + real" where
  "mass_balance_Cm kw =
     andthen (param kw ''Cv'') (\<lambda>Cv.
     andthen (param kw ''MW'') (\<lambda>MW.
     andthen (param kw ''Vm'') (\<lambda>Vm.
     py_div (Cv * MW) Vm)))"

definition mass_balance_get_scenarios :: "string list" where
  "mass_balance_get_scenarios = [''indoor,typical'', ''indoor,worst-case'', ''outdoor,typical'', ''outdoor,worst-case'', ''user'']"

definition mass_balance_scenario_defaults ::
  "string \<Rightarrow> real \<Rightarrow> real \<Rightarrow> real \<Rightarrow> kwargs \<Rightarrow> kwargs" where
  "mass_balance_scenario_defaults sc Q k vz kw =
     (if sc = ''indoor,typical'' then AList.update ''k'' (Num 0.5) (AList.update ''Q'' (Num 3000) kw)
      else if sc = ''indoor,worst-case'' then AList.update ''k'' (Num 0.1) (AList.update ''Q'' (Num 500) kw)
      else if sc = ''outdoor,typical'' then AList.update ''k'' (Num 0.5) (AList.update ''Q'' (Num 237600) kw)
      else if sc = ''outdoor,worst-case'' then AList.update ''k'' (Num 0.1) (AList.update ''Q'' (Num (26400 * (60 * vz / 5280) ^ 3)) kw)
      else if sc = ''user'' then AList.update ''k'' (Num k) (AList.update ''Q'' (Num Q) kw)
      else kw)"

definition mass_balance ::
  "real \<Rightarrow> real \<Rightarrow> real \<Rightarrow> real \<Rightarrow> string \<Rightarrow> real \<Rightarrow> real \<Rightarrow> real \<Rightarrow> real \<Rightarrow> real \<Rightarrow> real \<Rightarrow> real \<Rightarrow> common \<Rightarrow> error + model" where
  "mass_balance G MW VP X scenario' T Q k Vm b h vz c =
     andthen (inhalation_model_init c) (\<lambda>kw.
     let sc = normalize_scenario scenario' in
     if sc \<notin> set mass_balance_get_scenarios then raise_ScenarioException else
     let kw = AList.update ''route'' (Str ''inhalation'') kw in
     let kw = AList.update ''T'' (Num T) kw in
     let kw = AList.update ''G'' (Num G) kw in
     let kw = AList.update ''MW'' (Num MW) kw in
     let kw = AList.update ''X'' (Num X) kw in
     let kw = AList.update ''VP'' (Num VP) kw in
     let kw = AList.update ''Vm'' (Num Vm) kw in
     let kw = AList.update ''b'' (Num b) kw in
     let kw = AList.update ''h'' (Num h) kw in
     let kw = AList.update ''EY'' (Num (EY c)) kw in
     let kw = AList.update ''BW'' (Num (BW c)) kw in
     let kw = AList.update ''ATc'' (Num (ATc c)) kw in
     let kw = AList.update ''AT'' (Num (AT c)) kw in
     let kw = mass_balance_scenario_defaults sc Q k vz kw in
     andthen (snapshot_inputs kw) (\<lambda>(ins, kw).
     andthen (mass_balance_Cv kw) (\<lambda>cv.
     let kw = AList.update ''Cv'' (Num cv) kw in
     andthen (mass_balance_Cm kw) (\<lambda>cm.
     let kw = AList.update ''Cm'' (Num cm) kw in
     andthen (exposure_outputs kw) (\<lambda>kw.
     andthen (freeze_outputs ''I'' kw) (\<lambda>outs.
     Inr \<lparr>route = ''inhalation'',
          model_name = ''EPA-OPPT Mass Balance'',
          scenario = sc, inputs = ins, outputs = outs\<rparr>))))))"

text \<open>
  The constructors of \<open>pel_limiting_particulates\<close>, \<open>pel_limiting_vapors\<close>,
  \<open>total_pnor_pel_limiting\<close>, \<open>respirable_pnor_pel_limiting\<close> and
  \<open>user_defined_inhalation\<close> test the argument \<open>scenario\<close> as it was passed, not the
  normalised \<open>self.scenario\<close>.
\<close>

definition pel_limiting_particulates_Cm :: "kwargs \<Rightarrow> error + real" where
  "pel_limiting_particulates_Cm kw =
     andthen (param kw ''KCk'') (\<lambda>KCk.
     andthen (param kw ''Ys'') (\<lambda>Ys.
     andthen (param kw ''Ypel'') (\<lambda>Ypel.
     py_div (KCk * Ys) Ypel)))"

definition pel_limiting_particulates_get_scenarios :: "string list" where
  "pel_limiting_particulates_get_scenarios = [''user'']"

definition pel_limiting_particulates ::
  "real \<Rightarrow> string \<Rightarrow> real \<Rightarrow> real \<Rightarrow> real \<Rightarrow> real \<Rightarrow> common \<Rightarrow> error + model" where
  "pel_limiting_particulates Ys scenario' KCk Ypel b h c =
     andthen (inhalation_model_init c) (\<lambda>kw.
     let sc = normalize_scenario scenario' in
     if scenario' \<notin> set pel_limiting_particulates_get_scenarios then raise_ScenarioException else
     let kw = AList.update ''route'' (Str ''inhalation'') kw in
     let kw = AList.update ''KCk'' (Num KCk) kw in
     andthen (check_ul ''Ys'' Ys 0 1) (\<lambda>ys.
     let kw = AList.update ''Ys'' (Num ys) kw in
     andthen (check_ul ''Ypel'' Ypel 0 1) (\<lambda>ypel.
     let kw = AList.update ''Ypel'' (Num ypel) kw in
     andthen (check_ul ''b'' b 0 7.9) (\<lambda>b.
     let kw = AList.update ''b'' (Num b) kw in
     andthen (check_ul ''h'' h 0 24) (\<lambda>h.
     let kw = AList.update ''h'' (Num h) kw in
     andthen (snapshot_inputs kw) (\<lambda>(ins, kw).
     andthen (pel_limiting_particulates_Cm kw) (\<lambda>cm.
     let kw = AList.update ''Cm'' (Num cm) kw in
     andthen (exposure_outputs kw) (\<lambda>kw.
     andthen (freeze_outputs ''I'' kw) (\<lambda>outs.
     Inr \<lparr>route = ''inhalation'',
          model_name = ''OSHA PEL-limiting Model for Substance-specific Particulates'',
          scenario = sc, inputs = ins, outputs = outs\<rparr>)))))))))"

text \<open>
  \<open>pel_limiting_vapors\<close> stores \<open>1 - kwargs['Ys']\<close> under \<open>'Ypel'\<close>, the checked \<open>Ys\<close>
  stored just before; its argument \<open>Ypel\<close> is not read.
\<close>

definition pel_limiting_vapors_Cv :: "kwargs \<Rightarrow> error + real" where
  "pel_limiting_vapors_Cv kw =
     andthen (param kw ''Cvk'') (\<lambda>Cvk.
     andthen (param kw ''VP'') (\<lambda>VP.
     andthen (param kw ''Ys'') (\<lambda>Ys.
     andthen (param kw ''MW'') (\<lambda>MW.
     andthen (param kw ''VPpel'') (\<lambda>VPpel.
     andthen (param kw ''Ypel'') (\<lambda>Ypel.
     andthen (param kw ''MWpel'') (\<lambda>MWpel.
     andthen (param kw ''X'') (\<lambda>X.
     andthen (py_div (VP * Ys) MW) (\<lambda>r1.
     andthen (py_div (VPpel * Ypel) MWpel) (\<lambda>r2.
     andthen (py_div (Cvk * r1) r2) (\<lambda>r.
     Inr (min r (1000000 * X * VP / 760)))))))))))))"

definition pel_limiting_vapors_Cm :: "kwargs \<Rightarrow> error + real" where
  "pel_limiting_vapors_Cm kw =
     andthen (param kw ''Cv'') (\<lambda>Cv.
     andthen (param kw ''MW'') (\<lambda>MW.
     andthen (param kw ''Vm'') (\<lambda>Vm.
     py_div (Cv * MW) Vm)))"

definition pel_limiting_vapors_get_scenarios :: "string list" where
  "pel_limiting_vapors_get_scenarios = [''user'']"

definition pel_limiting_vapors ::
  "real \<Rightarrow> real \<Rightarrow> real \<Rightarrow> real \<Rightarrow> real \<Rightarrow> real \<Rightarrow> real \<Rightarrow> real \<Rightarrow> string \<Rightarrow> real \<Rightarrow> real \<Rightarrow> real \<Rightarrow> common \<Rightarrow> error + model" where
  "pel_limiting_vapors Cvk VP Ys MW VPpel Ypel MWpel X scenario' Vm b h c =
     andthen (inhalation_model_init c) (\<lambda>kw.
     let sc = normalize_scenario scenario' in
     if scenario' \<notin> set pel_limiting_vapors_get_scenarios then raise_ScenarioException else
     let kw = AList.update ''route'' (Str ''inhalation'') kw in
     let kw = AList.update ''Cvk'' (Num Cvk) kw in
     let kw = AList.update ''VP'' (Num VP) kw in
     andthen (check_ul ''Ys'' Ys 0 1) (\<lambda>ys.
     let kw = AList.update ''Ys'' (Num ys) kw in
     let kw = AList.update ''MW'' (Num MW) kw in
     let kw = AList.update ''VPpel'' (Num VPpel) kw in
     let kw = AList.update ''Ypel'' (Num (1 - ys)) kw in
     let kw = AList.update ''MWpel'' (Num MWpel) kw in
     andthen (check_ul ''X'' X 0 1) (\<lambda>x.
     let kw = AList.update ''X'' (Num x) kw in
     andthen (check_l ''Vm'' Vm 0) (\<lambda>vm.
     let kw = AList.update ''Vm'' (Num vm) kw in
     andthen (check_ul ''b'' b 0 7.9) (\<lambda>b.
     let kw = AList.update ''b'' (Num b) kw in
     andthen (check_ul ''h'' h 0 24) (\<lambda>h.
     let kw = AList.update ''h'' (Num h) kw in
     andthen (snapshot_inputs kw) (\<lambda>(ins, kw).
     andthen (pel_limiting_vapors_Cv kw) (\<lambda>cv.
     let kw = AList.update ''Cv'' (Num cv) kw in
     andthen (pel_limiting_vapors_Cm kw) (\<lambda>cm.
     let kw = AList.update ''Cm'' (Num cm) kw in
     andthen (exposure_outputs kw) (\<lambda>kw.
     andthen (freeze_outputs ''I'' kw) (\<lambda>outs.
     Inr \<lparr>route = ''inhalation'',
          model_name = ''OSHA PEL-limiting Model for Substance-specific Vapors'',
          scenario = sc, inputs = ins, outputs = outs\<rparr>)))))))))))"

definition total_pnor_pel_limiting_Cm :: "kwargs \<Rightarrow> error + real" where
  "total_pnor_pel_limiting_Cm kw =
     andthen (param kw ''KCk'') (\<lambda>KCk.
     andthen (param kw ''Ys'') (\<lambda>Ys.
     Inr (KCk * Ys)))"

definition total_pnor_pel_limiting_get_scenarios :: "string list" where
  "total_pnor_pel_limiting_get_scenarios = [''user'']"

definition total_pnor_pel_limiting ::
  "real \<Rightarrow> string \<Rightarrow> real \<Rightarrow> real \<Rightarrow> real \<Rightarrow> common \<Rightarrow> error + model" where
  "total_pnor_pel_limiting Ys scenario' KCk b h c =
     andthen (inhalation_model_init c) (\<lambda>kw.
     let sc = normalize_scenario scenario' in
     if scenario' \<notin> set total_pnor_pel_limiting_get_scenarios then raise_ScenarioException else
     let kw = AList.update ''route'' (Str ''inhalation'') kw in
     let kw = AList.update ''KCk'' (Num KCk) kw in
     andthen (check_ul ''Ys'' Ys 0 1) (\<lambda>ys.
     let kw = AList.update ''Ys'' (Num ys) kw in
     andthen (check_ul ''b'' b 0 7.9) (\<lambda>b.
     let kw = AList.update ''b'' (Num b) kw in
     andthen (check_ul ''h'' h 0 24) (\<lambda>h.
     let kw = AList.update ''h'' (Num h) kw in
     andthen (snapshot_inputs kw) (\<lambda>(ins, kw).
     andthen (total_pnor_pel_limiting_Cm kw) (\<lambda>cm.
     let kw = AList.update ''Cm'' (Num cm) kw in
     andthen (exposure_outputs kw) (\<lambda>kw.
     andthen (freeze_outputs ''I'' kw) (\<lambda>outs.
     Inr \<lparr>route = ''inhalation'',
          model_name = ''OSHA Total PNOR PEL-limiting'',
          scenario = sc, inputs = ins, outputs = outs\<rparr>))))))))"

definition respirable_pnor_pel_limiting_Cm :: "kwargs \<Rightarrow> error + real" where
  "respirable_pnor_pel_limiting_Cm kw =
     andthen (param kw ''KCk'') (\<lambda>KCk.
     andthen (param kw ''Ys'') (\<lambda>Ys.
     Inr (KCk * Ys)))"

definition respirable_pnor_pel_limiting_get_scenarios :: "string list" where
  "respirable_pnor_pel_limiting_get_scenarios = [''user'']"

definition respirable_pnor_pel_limiting ::
  "real \<Rightarrow> string \<Rightarrow> real \<Rightarrow> real \<Rightarrow> real \<Rightarrow> common \<Rightarrow> error + model" where
  "respirable_pnor_pel_limiting Ys scenario' KCk b h c =
     andthen (inhalation_model_init c) (\<lambda>kw.
     let sc = normalize_scenario scenario' in
     if scenario' \<notin> set respirable_pnor_pel_limiting_get_scenarios then raise_ScenarioException else
     let kw = AList.update ''route'' (Str ''inhalation'') kw in
     let kw = AList.update ''KCk'' (Num KCk) kw in
     andthen (check_ul ''Ys'' Ys 0 1) (\<lambda>ys.
     let kw = AList.update ''Ys'' (Num ys) kw in
     andthen (check_ul ''b'' b 0 7.9) (\<lambda>b.
     let kw = AList.update ''b'' (Num b) kw in
     andthen (check_ul ''h'' h 0 24) (\<lambda>h.
     let kw = AList.update ''h'' (Num h) kw in
     andthen (snapshot_inputs kw) (\<lambda>(ins, kw).
     andthen (respirable_pnor_pel_limiting_Cm kw) (\<lambda>cm.
     let kw = AList.update ''Cm'' (Num cm) kw in
     andthen (exposure_outputs kw) (\<lambda>kw.
     andthen (freeze_outputs ''I'' kw) (\<lambda>outs.
     Inr \<lparr>route = ''inhalation'',
          model_name = ''OSHA Respirable PNOR PEL-limiting'',
          scenario = sc, inputs = ins, outputs = outs\<rparr>))))))))"

text \<open>
  In the three constructors that default \<open>Ys\<close>, \<open>kwargs['Ymist']\<close> and \<open>kwargs['Ysf']\<close>
  are read back right after they were stored: they are the checked values.
\<close>

definition automobile_oem_spray_coating_Cm :: "kwargs \<Rightarrow> error + real" where
  "automobile_oem_spray_coating_Cm kw =
     andthen (param kw ''KCk'') (\<lambda>KCk.
     andthen (param kw ''Ys'') (\<lambda>Ys.
     Inr (KCk * Ys)))"

definition automobile_oem_spray_coating_get_scenarios :: "string list" where
  "automobile_oem_spray_coating_get_scenarios = [''conventional,downdraft'', ''conventional,crossdraft'', ''hvlp,downdraft'', ''hvlp,crossdraft'', ''user'']"

definition automobile_oem_spray_coating_scenario_defaults ::
  "string \<Rightarrow> real \<Rightarrow> kwargs \<Rightarrow> kwargs" where
  "automobile_oem_spray_coating_scenario_defaults sc KCk kw =
     (if sc = ''conventional,downdraft'' then AList.update ''KCk'' (Num 2.3) kw
      else if sc = ''conventional,crossdraft'' then AList.update ''KCk'' (Num 15) kw
      else if sc = ''hvlp,downdraft'' then AList.update ''KCk'' (Num 1.9) kw
      else if sc = ''hvlp,crossdraft'' then AList.update ''KCk'' (Num 15) kw
      else if sc = ''user'' then AList.update ''KCk'' (Num KCk) kw
      else kw)"

definition automobile_oem_spray_coating ::
  "real \<Rightarrow> string \<Rightarrow> real \<Rightarrow> real option \<Rightarrow> real \<Rightarrow> real \<Rightarrow> real \<Rightarrow> common \<Rightarrow> error + model" where
  "automobile_oem_spray_coating Ymist scenario' KCk Ys Ysf b h c =
     andthen (inhalation_model_init c) (\<lambda>kw.
     let sc = normalize_scenario scenario' in
     if sc \<notin> set automobile_oem_spray_coating_get_scenarios then raise_ScenarioException else
     let kw = AList.update ''route'' (Str ''inhalation'') kw in
     let kw = automobile_oem_spray_coating_scenario_defaults sc KCk kw in
     andthen (check_ul ''Ymist'' Ymist 0 1) (\<lambda>ymist.
     let kw = AList.update ''Ymist'' (Num ymist) kw in
     andthen (check_ul ''Ysf'' Ysf 0 1) (\<lambda>ysf.
     let kw = AList.update ''Ysf'' (Num ysf) kw in
     andthen (case Ys of
                None \<Rightarrow> andthen (py_div ymist ysf) (\<lambda>r. check_ul ''Ys'' (min r 1) 0 1)
              | Some y \<Rightarrow> check_ul ''Ys'' y 0 1) (\<lambda>ys.
     let kw = AList.update ''Ys'' (Num ys) kw in
     andthen (check_ul ''b'' b 0 7.9) (\<lambda>b.
     let kw = AList.update ''b'' (Num b) kw in
     andthen (check_ul ''h'' h 0 24) (\<lambda>h.
     let kw = AList.update ''h'' (Num h) kw in
     andthen (snapshot_inputs kw) (\<lambda>(ins, kw).
     andthen (automobile_oem_spray_coating_Cm kw) (\<lambda>cm.
     let kw = AList.update ''Cm'' (Num cm) kw in
     andthen (exposure_outputs kw) (\<lambda>kw.
     andthen (freeze_outputs ''I'' kw) (\<lambda>outs.
     Inr \<lparr>route = ''inhalation'',
          model_name = ''EPA-OPPT automobile OEM Spray Coating'',
          scenario = sc, inputs = ins, outputs = outs\<rparr>))))))))))"

definition automobile_refinish_spray_coating_Cm :: "kwargs \<Rightarrow> error + real" where
  "automobile_refinish_spray_coating_Cm kw =
     andthen (param kw ''KCk'') (\<lambda>KCk.
     andthen (param kw ''Ys'') (\<lambda>Ys.
     Inr (KCk * Ys)))"

definition automobile_refinish_spray_coating_get_scenarios :: "string list" where
  "automobile_refinish_spray_coating_get_scenarios = [''conventional,downdraft'', ''conventional,crossdraft'', ''hvlp,downdraft'', ''hvlp,crossdraft'', ''user'']"

definition automobile_refinish_spray_coating_scenario_defaults ::
  "string \<Rightarrow> real \<Rightarrow> kwargs \<Rightarrow> kwargs" where
  "automobile_refinish_spray_coating_scenario_defaults sc KCk kw =
     (if sc = ''conventional,downdraft'' then AList.update ''KCk'' (Num 2.3) kw
      else if sc = ''conventional,crossdraft'' then AList.update ''KCk'' (Num 15) kw
      else if sc = ''hvlp,downdraft'' then AList.update ''KCk'' (Num 1.9) kw
      else if sc = ''hvlp,crossdraft'' then AList.update ''KCk'' (Num 15) kw
      else if sc = ''user'' then AList.update ''KCk'' (Num KCk) kw
      else kw)"

definition automobile_refinish_spray_coating ::
  "real \<Rightarrow> string \<Rightarrow> real option \<Rightarrow> real \<Rightarrow> real \<Rightarrow> real \<Rightarrow> real \<Rightarrow> common \<Rightarrow> error + model" where
  "automobile_refinish_spray_coating Ymist scenario' Ys KCk Ysf b h c =
     andthen (inhalation_model_init c) (\<lambda>kw.
     let sc = normalize_scenario scenario' in
     if sc \<notin> set automobile_refinish_spray_coating_get_scenarios then raise_ScenarioException else
     let kw = AList.update ''route'' (Str ''inhalation'') kw in
     let kw = automobile_refinish_spray_coating_scenario_defaults sc KCk kw in
     andthen (check_ul ''Ymist'' Ymist 0 1) (\<lambda>ymist.
     let kw = AList.update ''Ymist'' (Num ymist) kw in
     andthen (check_ul ''Ysf'' Ysf 0 1) (\<lambda>ysf.
     let kw = AList.update ''Ysf'' (Num ysf) kw in
     andthen (case Ys of
                None \<Rightarrow> andthen (py_div ymist ysf) (\<lambda>r. check_ul ''Ys'' (min r 1) 0 1)
              | Some y \<Rightarrow> check_ul ''Ys'' y 0 1) (\<lambda>ys.
     let kw = AList.update ''Ys'' (Num ys) kw in
     andthen (check_ul ''b'' b 0 7.9) (\<lambda>b.
     let kw = AList.update ''b'' (Num b) kw in
     andthen (check_ul ''h'' h 0 24) (\<lambda>h.
     let kw = AList.update ''h'' (Num h) kw in
     andthen (snapshot_inputs kw) (\<lambda>(ins, kw).
     andthen (automobile_refinish_spray_coating_Cm kw) (\<lambda>cm.
     let kw = AList.update ''Cm'' (Num cm) kw in
     andthen (exposure_outputs kw) (\<lambda>kw.
     andthen (freeze_outputs ''I'' kw) (\<lambda>outs.
     Inr \<lparr>route = ''inhalation'',
          model_name = ''EPA-OPPT Automobile Refinish Spray Coating'',
          scenario = sc, inputs = ins, outputs = outs\<rparr>))))))))))"

definition automobile_spray_coating_Cm :: "kwargs \<Rightarrow> error + real" where
  "automobile_spray_coating_Cm kw = param kw ''KCk''"

definition automobile_spray_coating_get_scenarios :: "string list" where
  "automobile_spray_coating_get_scenarios = [''low,conventional,crossdraft'', ''high,conventional,crossdraft'', ''low,conventional,downdraft'', ''high,conventional,downdraft'', ''low,hvlp,crossdraft'', ''high,hvlp,crossdraft'', ''low,hvlp,downdraft'', ''high,hvlp,downdraft'']"

definition automobile_spray_coating_scenario_defaults ::
  "string \<Rightarrow> real \<Rightarrow> kwargs \<Rightarrow> kwargs" where
  "automobile_spray_coating_scenario_defaults sc KCk kw =
     (if sc = ''low,conventional,crossdraft'' then AList.update ''KCk'' (Num 0.05) kw
      else if sc = ''high,conventional,crossdraft'' then AList.update ''KCk'' (Num 18.4) kw
      else if sc = ''low,conventional,downdraft'' then AList.update ''KCk'' (Num 0.01) kw
      else if sc = ''high,conventional,downdraft'' then AList.update ''KCk'' (Num 3.7) kw
      else if sc = ''low,hvlp,crossdraft'' then AList.update ''KCk'' (Num 1.0) kw
      else if sc = ''high,hvlp,crossdraft'' then AList.update ''KCk'' (Num 5.2) kw
      else if sc = ''low,hvlp,downdraft'' then AList.update ''KCk'' (Num 0.6) kw
      else if sc = ''high,hvlp,downdraft'' then AList.update ''KCk'' (Num 1.4) kw
      else if sc = ''user'' then AList.update ''KCk'' (Num KCk) kw
      else kw)"

definition automobile_spray_coating ::
  "string \<Rightarrow> real \<Rightarrow> real \<Rightarrow> real \<Rightarrow> common \<Rightarrow> error + model" where
  "automobile_spray_coating scenario' KCk b h c =
     andthen (inhalation_model_init c) (\<lambda>kw.
     let sc = normalize_scenario scenario' in
     if sc \<notin> set automobile_spray_coating_get_scenarios then raise_ScenarioException else
     let kw = AList.update ''route'' (Str ''inhalation'') kw in
     let kw = automobile_spray_coating_scenario_defaults sc KCk kw in
     let kw = AList.update ''b'' (Num b) kw in
     let kw = AList.update ''h'' (Num h) kw in
     andthen (snapshot_inputs kw) (\<lambda>(ins, kw).
     andthen (automobile_spray_coating_Cm kw) (\<lambda>cm.
     let kw = AList.update ''Cm'' (Num cm) kw in
     andthen (exposure_outputs kw) (\<lambda>kw.
     andthen (freeze_outputs ''I'' kw) (\<lambda>outs.
     Inr \<lparr>route = ''inhalation'',
          model_name = ''EPA-OPPT Automobile Spray Coating'',
          scenario = sc, inputs = ins, outputs = outs\<rparr>)))))"

definition uv_roll_coating_Cm :: "kwargs \<Rightarrow> error + real" where
  "uv_roll_coating_Cm kw =
     andthen (param kw ''KCk'') (\<lambda>KCk.
     andthen (param kw ''Ys'') (\<lambda>Ys.
     Inr (KCk * Ys)))"

definition uv_roll_coating_get_scenarios :: "string list" where
  "uv_roll_coating_get_scenarios = [''low end of range'', ''high end of range'']"

definition uv_roll_coating_scenario_defaults ::
  "string \<Rightarrow> real \<Rightarrow> kwargs \<Rightarrow> kwargs" where
  "uv_roll_coating_scenario_defaults sc KCk kw =
     (if sc = ''low end of range'' then AList.update ''KCk'' (Num 0.04) kw
      else if sc = ''high end of range'' then AList.update ''KCk'' (Num 0.26) kw
      else if sc = ''user'' then AList.update ''KCk'' (Num KCk) kw
      else kw)"

definition uv_roll_coating ::
  "real \<Rightarrow> string \<Rightarrow> real \<Rightarrow> real option \<Rightarrow> real \<Rightarrow> real \<Rightarrow> real \<Rightarrow> common \<Rightarrow> error + model" where
  "uv_roll_coating Ymist scenario' KCk Ys Ysf b h c =
     andthen (inhalation_model_init c) (\<lambda>kw.
     let sc = normalize_scenario scenario' in
     if sc \<notin> set uv_roll_coating_get_scenarios then raise_ScenarioException else
     let kw = AList.update ''route'' (Str ''inhalation'') kw in
     let kw = uv_roll_coating_scenario_defaults sc KCk kw in
     andthen (check_ul ''Ymist'' Ymist 0 1) (\<lambda>ymist.
     let kw = AList.update ''Ymist'' (Num ymist) kw in
     andthen (check_ul ''Ysf'' Ysf 0 1) (\<lambda>ysf.
     let kw = AList.update ''Ysf'' (Num ysf) kw in
     andthen (case Ys of
                None \<Rightarrow> andthen (py_div ymist ysf) (\<lambda>r. check_ul ''Ys'' (min r 1) 0 1)
              | Some y \<Rightarrow> check_ul ''Ys'' y 0 1) (\<lambda>ys.
     let kw = AList.update ''Ys'' (Num ys) kw in
     andthen (check_ul ''b'' b 0 7.9) (\<lambda>b.
     let kw = AList.update ''b'' (Num b) kw in
     andthen (check_ul ''h'' h 0 24) (\<lambda>h.
     let kw = AList.update ''h'' (Num h) kw in
     andthen (snapshot_inputs kw) (\<lambda>(ins, kw).
     andthen (uv_roll_coating_Cm kw) (\<lambda>cm.
     let kw = AList.update ''Cm'' (Num cm) kw in
     andthen (exposure_outputs kw) (\<lambda>kw.
     andthen (freeze_outputs ''I'' kw) (\<lambda>outs.
     Inr \<lparr>route = ''inhalation'',
          model_name = ''EPA-OPPT UV Roll Coating'',
          scenario = sc, inputs = ins, outputs = outs\<rparr>))))))))))"

definition user_defined_inhalation_get_scenarios :: "string list" where
  "user_defined_inhalation_get_scenarios = [''user'']"

definition user_defined_inhalation ::
  "real \<Rightarrow> real \<Rightarrow> real \<Rightarrow> string \<Rightarrow> real option \<Rightarrow> real \<Rightarrow> real \<Rightarrow> real \<Rightarrow> common \<Rightarrow> error + model" where
  "user_defined_inhalation Cv MW h scenario' Cm Vm Ys b c =
     andthen (inhalation_model_init c) (\<lambda>kw.
     let sc = normalize_scenario scenario' in
     if scenario' \<notin> set user_defined_inhalation_get_scenarios then raise_ScenarioException else
     let kw = AList.update ''route'' (Str ''inhalation'') kw in
     let kw = AList.update ''Cv'' (Num Cv) kw in
     let kw = AList.update ''MW'' (Num MW) kw in
     andthen (check_l ''Vm'' Vm 0) (\<lambda>vm.
     let kw = AList.update ''Vm'' (Num vm) kw in
     andthen (check_ul ''Ys'' Ys 0 1) (\<lambda>ys.
     let kw = AList.update ''Ys'' (Num ys) kw in
     andthen (case Cm of
                None \<Rightarrow> andthen (py_div (Cv * MW) Vm) (\<lambda>r. check_l ''Cm'' (r * Ys) 0)
              | Some m \<Rightarrow> check_l ''Cm'' m 0) (\<lambda>cm.
     let kw = AList.update ''Cm'' (Num cm) kw in
     andthen (check_ul ''b'' b 0 7.9) (\<lambda>b.
     let kw = AList.update ''b'' (Num b) kw in
     andthen (check_ul ''h'' h 0 24) (\<lambda>h.
     let kw = AList.update ''h'' (Num h) kw in
     andthen (snapshot_inputs kw) (\<lambda>(ins, kw).
     andthen (exposure_outputs kw) (\<lambda>kw.
     andthen (freeze_outputs ''I'' kw) (\<lambda>outs.
     Inr \<lparr>route = ''inhalation'',
          model_name = ''User-defined Inhalation'',
          scenario = sc, inputs = ins, outputs = outs\<rparr>)))))))))"

section \<open>Defaults and the result interface\<close>

text \<open>
  The default values that the signatures share for the family arguments
  (\<open>ED=1, NWexp=1, NS=1, EY=40, BW=70, ATc=70, AT=40\<close>); the three spray coating
  constructors have their own default for \<open>NWexp\<close>.
\<close>

definition default_common :: common where
  "default_common = \<lparr>ED = 1, NWexp = 1, NS = 1, EY = 40, BW = 70, ATc = 70, AT = 40\<rparr>"

text \<open>
  Reading \<open>inputs[k]\<close> and \<open>outputs[k]\<close> off the result of a constructor call; there is
  nothing to read when the constructor raised.
\<close>

definition input_of :: "error + model \<Rightarrow> string \<Rightarrow> pyval option" where
  "input_of r k = (case r of Inl e \<Rightarrow> None | Inr m \<Rightarrow> map_of (inputs m) k)"

definition output_of :: "error + model \<Rightarrow> string \<Rightarrow> pyval option" where
  "output_of r k = (case r of Inl e \<Rightarrow> None | Inr m \<Rightarrow> map_of (outputs m) k)"

text \<open>
  The property of an instance \<open>m\<close> that its average daily dose was computed with the
  averaging time \<open>t\<close>: \<open>inputs['AT']\<close> is \<open>t\<close>, and \<open>outputs['ADD']\<close> is
  \<open>(PDR * ED * EY) / (BW * t * 365)\<close> for the potential dose rate \<open>PDR\<close> that the outputs
  hold under the name \<open>nm\<close> (\<open>'Dexp'\<close> or \<open>'I'\<close>) and the \<open>ED\<close>, \<open>EY\<close>, \<open>BW\<close> of the call.
\<close>

definition ADD_averaged_over :: "string \<Rightarrow> common \<Rightarrow> real \<Rightarrow> model \<Rightarrow> bool" where
  "ADD_averaged_over nm c t m \<longleftrightarrow>
     map_of (inputs m) ''AT'' = Some (Num t) \<and>
     (case map_of (outputs m) nm of
        Some (Num pdr) \<Rightarrow>
          BW c * t * 365 \<noteq> 0 \<and>
          map_of (outputs m) ''ADD'' = Some (Num (pdr * ED c * EY c / (BW c * t * 365)))
      | _ \<Rightarrow> False)"

section \<open>Reasoning about the shared steps\<close>

lemma andthen_Inr_iff: "andthen m f = Inr y \<longleftrightarrow> (\<exists>x. m = Inr x \<and> f x = Inr y)"
  by (cases m) (simp_all add: andthen_def)

lemma andthen_Inr: "andthen (Inr x) f = f x"
  by (simp add: andthen_def)

lemma andthen_isl: "(\<And>x. isl (f x)) \<Longrightarrow> isl (andthen m f)"
  by (cases m) (simp_all add: andthen_def)

lemma andthen_cong_fun: "(\<And>x. f x = g x) \<Longrightarrow> andthen m f = andthen m g"
  by (cases m) (simp_all add: andthen_def)

lemma check_ul_Inr_iff: "check_ul n v lo hi = Inr x \<longleftrightarrow> lo \<le> v \<and> v \<le> hi \<and> x = v"
  by (auto simp: check_ul_def)

lemma check_l_Inr_iff: "check_l n v lo = Inr x \<longleftrightarrow> lo \<le> v \<and> x = v"
  by (auto simp: check_l_def)

lemma py_div_Inr_iff: "py_div a b = Inr x \<longleftrightarrow> b \<noteq> 0 \<and> x = a / b"
  by (auto simp: py_div_def)

lemma param_Inr_iff: "param kw k = Inr x \<longleftrightarrow> map_of kw k = Some (Num x)"
  by (auto simp: param_def split: option.splits pyval.splits)

lemma subscr_Inr_iff: "subscr kw k = Inr x \<longleftrightarrow> map_of kw k = Some (Num x)"
  by (auto simp: subscr_def split: option.splits pyval.splits)

lemma skips_of_Inr_iff: "skips_of kw = Inr sk \<longleftrightarrow> map_of kw ''skips'' = Some (Names sk)"
  by (auto simp: skips_of_def split: option.splits pyval.splits)

lemma raise_Inr_iff:
  "(if b then raise_ScenarioException else r) = Inr y \<longleftrightarrow> \<not> b \<and> r = Inr y"
  by (simp add: raise_ScenarioException_def)

lemma map_of_filter_key:
  "map_of (filter (\<lambda>(k, v). P k) al) k' = (if P k' then map_of al k' else None)"
  by (induction al) auto

lemma model_args_lookup:
  assumes "model_args kw = Inr r" and "map_of kw ''skips'' = Some (Names sk)"
  shows "map_of r k = (if k \<in> set sk then None else map_of kw k)"
  using assms
  by (auto simp: model_args_def andthen_Inr_iff skips_of_Inr_iff map_of_filter_key
           split: if_splits)

lemma snapshot_inputs_Inr:
  assumes "snapshot_inputs kw = Inr (ins, kw1)" and "map_of kw ''skips'' = Some (Names sk)"
  shows "map_of ins k = (if k \<in> set sk then None else map_of kw k)"
    and "map_of kw1 k =
           (if k = ''skips'' then Some (Names (sk @ map fst kw)) else map_of kw k)"
  using assms
  by (auto simp: snapshot_inputs_def andthen_Inr_iff skips_of_Inr_iff model_args_lookup
                 update_conv')

lemma freeze_outputs_lookup:
  assumes "freeze_outputs nm kw = Inr outs" and "map_of kw ''skips'' = Some (Names sk)"
  shows "map_of outs k =
           (if k = nm then map_of kw ''PDR''
            else if k = ''PDR'' \<or> k \<in> set sk then None else map_of kw k)"
  using assms
  by (auto simp: freeze_outputs_def andthen_Inr_iff model_args_lookup update_conv'
                 delete_conv'
           split: option.splits if_splits)

lemma call_daily_dose_Inr_iff:
  "call_daily_dose t kw = Inr x \<longleftrightarrow>
     map_of kw ''t'' = None \<and>
     (\<exists>pdr ed ey bw.
        map_of kw ''PDR'' = Some (Num pdr) \<and> map_of kw ''ED'' = Some (Num ed) \<and>
        map_of kw ''EY'' = Some (Num ey) \<and> map_of kw ''BW'' = Some (Num bw) \<and>
        bw * t * 365 \<noteq> 0 \<and> x = pdr * ed * ey / (bw * t * 365))"
  unfolding call_daily_dose_def daily_dose_def days_per_year_def
  by (auto simp: andthen_Inr_iff param_Inr_iff py_div_Inr_iff)

lemma exposure_outputs_lookup:
  assumes "exposure_outputs kw = Inr kw'"
  shows "\<exists>pdr nwexp ns ed ey bw atc avg.
           call_potential_dose_rate kw = Inr pdr \<and>
           map_of kw ''NWexp'' = Some (Num nwexp) \<and> map_of kw ''NS'' = Some (Num ns) \<and>
           map_of kw ''ED'' = Some (Num ed) \<and> map_of kw ''EY'' = Some (Num ey) \<and>
           map_of kw ''BW'' = Some (Num bw) \<and> map_of kw ''ATc'' = Some (Num atc) \<and>
           map_of kw ''AT'' = Some (Num avg) \<and>
           bw * atc * 365 \<noteq> 0 \<and> bw * avg * 365 \<noteq> 0 \<and>
           map_of kw' = (map_of kw)(''PDR'' \<mapsto> Num pdr, ''NW'' \<mapsto> Num (nwexp * ns),
              ''LADD'' \<mapsto> Num (pdr * ed * ey / (bw * atc * 365)),
              ''ADD'' \<mapsto> Num (pdr * ed * ey / (bw * avg * 365)),
              ''APDR'' \<mapsto> Num (pdr / bw))"
  using assms
  unfolding exposure_outputs_def call_workers_exposed_def
    call_acute_potential_dose_rate_def acute_potential_dose_rate_def
    workers_exposed_def Let_def
  by (auto simp: andthen_Inr_iff param_Inr_iff subscr_Inr_iff py_div_Inr_iff update_conv'
                 call_daily_dose_Inr_iff)

lemma dermal_model_init_Inr_iff:
  "dermal_model_init c = Inr kw \<longleftrightarrow>
     0 \<le> ED c \<and> ED c \<le> 365 \<and> 0 \<le> EY c \<and> 0 \<le> BW c \<and> 0 \<le> ATc c \<and>
     kw = [(''ED'', Num (ED c)), (''NWexp'', Num (NWexp c)), (''NS'', Num (NS c)),
           (''EY'', Num (EY c)), (''BW'', Num (BW c)), (''ATc'', Num (ATc c)),
           (''AT'', Num (EY c)), (''skips'', Names initial_skips)]"
  unfolding dermal_model_init_def
  by (auto simp: andthen_Inr_iff check_ul_Inr_iff check_l_Inr_iff)

lemma inhalation_model_init_Inr_iff:
  "inhalation_model_init c = Inr kw \<longleftrightarrow>
     0 \<le> ED c \<and> ED c \<le> 365 \<and> 0 \<le> EY c \<and> 0 \<le> BW c \<and> 0 \<le> ATc c \<and>
     kw = [(''ED'', Num (ED c)), (''NWexp'', Num (NWexp c)), (''NS'', Num (NS c)),
           (''EY'', Num (EY c)), (''BW'', Num (BW c)), (''ATc'', Num (ATc c)),
           (''AT'', Num (AT c)), (''skips'', Names initial_skips)]"
  unfolding inhalation_model_init_def
  by (auto simp: andthen_Inr_iff check_ul_Inr_iff check_l_Inr_iff)

lemma dermal_model_init_ignores_AT: "dermal_model_init (c\<lparr>AT := a\<rparr>) = dermal_model_init c"
  by (simp add: dermal_model_init_def)

lemmas Inr_iffs = andthen_Inr_iff raise_Inr_iff check_ul_Inr_iff check_l_Inr_iff py_div_Inr_iff
  dermal_model_init_Inr_iff inhalation_model_init_Inr_iff

text \<open>
  What the steps after the last check leave in \<open>inputs\<close> and \<open>outputs\<close>, in terms of
  the dictionary \<open>kw\<close> at the snapshot and the dictionary \<open>kwE\<close> handed to the five
  exposure lines (\<open>kw\<close> after the snapshot, with \<open>Cv\<close> and \<open>Cm\<close> added by the
  constructors that compute them).
\<close>

lemma tail_inputs:
  assumes snap: "snapshot_inputs kw = Inr (ins, kw1)"
      and sk: "map_of kw ''skips'' = Some (Names initial_skips)"
      and k: "k \<notin> set initial_skips"
  shows "map_of ins k = map_of kw k"
  using snapshot_inputs_Inr(1) [OF snap sk] k by simp

lemma tail_outputs:
  assumes snap: "snapshot_inputs kw = Inr (ins, kw1)"
      and ex: "exposure_outputs kwE = Inr kw2"
      and fr: "freeze_outputs nm kw2 = Inr outs"
      and frame: "map_of kwE ''skips'' = map_of kw1 ''skips''"
      and sk: "map_of kw ''skips'' = Some (Names initial_skips)"
      and k: "k \<notin> set initial_skips" "map_of kw k = None" "k \<noteq> nm"
             "k \<notin> {''PDR'', ''NW'', ''LADD'', ''ADD'', ''APDR''}"
  shows "map_of outs k = map_of kwE k"
proof -
  note s = snapshot_inputs_Inr [OF snap sk]
  have k1: "map_of kwE ''skips'' = Some (Names (initial_skips @ map fst kw))"
    by (simp add: frame s(2))
  from exposure_outputs_lookup [OF ex] obtain f where
    e: "map_of kw2 = (map_of kwE)(''PDR'' \<mapsto> f ''PDR'', ''NW'' \<mapsto> f ''NW'',
          ''LADD'' \<mapsto> f ''LADD'', ''ADD'' \<mapsto> f ''ADD'', ''APDR'' \<mapsto> f ''APDR'')"
    by (auto intro: that [of "\<lambda>x. the (map_of kw2 x)"])
  have k2: "map_of kw2 ''skips'' = Some (Names (initial_skips @ map fst kw))"
    by (simp add: e k1)
  have "k \<notin> set (map fst kw)"
    using k(2) by (simp add: map_of_eq_None_iff)
  then show ?thesis
    using k by (simp add: freeze_outputs_lookup [OF fr k2] e)
qed

lemma tail_ADD:
  assumes snap: "snapshot_inputs kw = Inr (ins, kw1)"
      and ex: "exposure_outputs kwE = Inr kw2"
      and fr: "freeze_outputs nm kw2 = Inr outs"
      and frame: "\<And>k. k \<noteq> ''Cv'' \<Longrightarrow> k \<noteq> ''Cm'' \<Longrightarrow> map_of kwE k = map_of kw1 k"
      and sk: "map_of kw ''skips'' = Some (Names initial_skips)"
      and vals: "map_of kw ''ED'' = Some (Num (ED c))" "map_of kw ''EY'' = Some (Num (EY c))"
                "map_of kw ''BW'' = Some (Num (BW c))" "map_of kw ''AT'' = Some (Num avg)"
      and fresh: "map_of kw ''ADD'' = None"
      and nm: "nm = ''Dexp'' \<or> nm = ''I''"
      and m: "inputs m = ins" "outputs m = outs"
  shows "ADD_averaged_over nm c avg m"
proof -
  note s = snapshot_inputs_Inr [OF snap sk]
  have k1: "map_of kwE ''skips'' = Some (Names (initial_skips @ map fst kw))"
    by (simp add: frame s(2))
  have v: "map_of kwE ''ED'' = Some (Num (ED c))" "map_of kwE ''EY'' = Some (Num (EY c))"
          "map_of kwE ''BW'' = Some (Num (BW c))" "map_of kwE ''AT'' = Some (Num avg)"
    by (simp_all add: frame s(2) vals)
  from exposure_outputs_lookup [OF ex] v obtain pdr nwexp ns atc where
    e: "BW c * avg * 365 \<noteq> 0"
       "map_of kw2 = (map_of kwE)(''PDR'' \<mapsto> Num pdr, ''NW'' \<mapsto> Num (nwexp * ns),
              ''LADD'' \<mapsto> Num (pdr * ED c * EY c / (BW c * atc * 365)),
              ''ADD'' \<mapsto> Num (pdr * ED c * EY c / (BW c * avg * 365)),
              ''APDR'' \<mapsto> Num (pdr / BW c))"
    by auto
  have k2: "map_of kw2 ''skips'' = Some (Names (initial_skips @ map fst kw))"
    by (simp add: e(2) k1)
  note f = freeze_outputs_lookup [OF fr k2]
  have fr': "''ADD'' \<notin> set (map fst kw)"
    using fresh by (simp add: map_of_eq_None_iff)
  have "map_of ins ''AT'' = Some (Num avg)"
    by (simp add: s(1) vals initial_skips_def)
  moreover have "map_of outs nm = Some (Num pdr)"
    using nm by (auto simp: f e(2))
  moreover have "map_of outs ''ADD'' = Some (Num (pdr * ED c * EY c / (BW c * avg * 365)))"
    using nm fr' by (auto simp: f e(2) initial_skips_def)
  ultimately show ?thesis
    using e(1) by (simp add: ADD_averaged_over_def m)
qed

section \<open>The bounds checks\<close>

lemma check_ul_cases:
  "check_ul name v min_val max_val =
     (if min_val \<le> v \<and> v \<le> max_val then Inr v
      else Inl (BoundsException (bounds_message name min_val max_val)))"
  by (auto simp: check_ul_def)

lemma check_ul_num_Fin:
  "check_ul_num name (Fin v) (Fin min_val) (Fin max_val) =
     (case check_ul name v min_val max_val of Inl e \<Rightarrow> Inl e | Inr x \<Rightarrow> Inr (Fin x))"
  by (simp add: check_ul_num_def check_ul_def bounds_message_num_def bounds_message_def)


lemma py_le_Fin: "py_le (Fin a) (Fin b) \<longleftrightarrow> a \<le> b"
  by (auto simp: py_le_def)

lemma py_le_iff_not_less:
  "x \<noteq> NaN \<Longrightarrow> y \<noteq> NaN \<Longrightarrow> py_le x y \<longleftrightarrow> \<not> py_lt y x"
  by (simp add: py_le_def)




text \<open>
  C6. \<open>check_l\<close> returns the value when it is at least \<open>min_val\<close> (default 0). Below
  \<open>min_val\<close> the specification asks for a \<open>BoundsException\<close>; the code raises \<open>NameError\<close>, since
  the message it builds reads the undefined \<open>max_val\<close>. The call \<open>check_l('EY', -1)\<close>:
\<close>

theorem check_l_below_min_raises_NameError:
  "check_l ''EY'' (- 1) check_l_default_min = Inl (NameError ''max_val'')"
  by (simp add: check_l_def check_l_default_min_def)

lemma check_l_cases:
  "check_l name v min_val = (if min_val \<le> v then Inr v else Inl (NameError ''max_val''))"
  by (simp add: check_l_def)

section \<open>The potential dose rate\<close>

text \<open>The four formulas of \<open>potential_dose_rate\<close>, on the keys each of them reads.\<close>

lemma potential_dose_rate_dermal_SQu:
  assumes "map_of kw ''SQu'' = Some (Num squ)" and "map_of kw ''Yderm'' = Some (Num yderm)"
    and "map_of kw ''FT'' = Some (Num ft)"
  shows "potential_dose_rate (Str ''dermal'') kw = Inr (squ * yderm * ft)"
  using assms by (simp add: potential_dose_rate_def subscr_def andthen_def)

lemma potential_dose_rate_dermal_S_Qu:
  assumes "map_of kw ''SQu'' = None" and "map_of kw ''S'' = Some (Num s)"
    and "map_of kw ''Qu'' = Some (Num qu)" and "map_of kw ''Yderm'' = Some (Num yderm)"
    and "map_of kw ''FT'' = Some (Num ft)"
  shows "potential_dose_rate (Str ''dermal'') kw = Inr (s * qu * yderm * ft)"
  using assms by (simp add: potential_dose_rate_def subscr_def andthen_def)

lemma potential_dose_rate_inhalation_Cm:
  assumes "map_of kw ''Cm'' = Some (Num cm)" and "map_of kw ''b'' = Some (Num b)"
    and "map_of kw ''h'' = Some (Num h)"
  shows "potential_dose_rate (Str ''inhalation'') kw = Inr (cm * b * h)"
  using assms by (simp add: potential_dose_rate_def subscr_def andthen_def)

lemma potential_dose_rate_inhalation_EF:
  assumes "map_of kw ''Cm'' = None" and "map_of kw ''EF'' = Some (Num ef)"
    and "map_of kw ''AH'' = Some (Num ah)" and "map_of kw ''Ys'' = Some (Num ys)"
    and "map_of kw ''Sd'' = Some (Num sd)"
  shows "potential_dose_rate (Str ''inhalation'') kw = Inr (ef * ah * ys * sd)"
  using assms by (simp add: potential_dose_rate_def subscr_def andthen_def)

lemma potential_dose_rate_other_route:
  "r \<noteq> Str ''dermal'' \<Longrightarrow> r \<noteq> Str ''inhalation'' \<Longrightarrow>
   potential_dose_rate r kw = Inl (NameError ''RouteException'')"
  by (simp add: potential_dose_rate_def)

text \<open>
  C4. For a route that is neither \<open>'dermal'\<close> nor \<open>'inhalation'\<close> the specification asks for a
  \<open>RouteException\<close>; the code raises \<open>NameError\<close>, since \<open>exposures.py\<close> does not know the
  name \<open>RouteException\<close>. The call \<open>potential_dose_rate('oral')\<close>:
\<close>

theorem potential_dose_rate_unknown_route_raises_NameError:
  "potential_dose_rate (Str ''oral'') [] = Inl (NameError ''RouteException'')"
  by (simp add: potential_dose_rate_def)

section \<open>Golden values of \<open>one_hand_liquid_contact\<close>\<close>

lemma one_hand_liquid_contact_golden:
  "one_hand_liquid_contact 0.1 ''high'' 535 2.1 1 default_common =
   Inr \<lparr>route = ''dermal'',
        model_name = ''EPA-OPPT 1-Hand Dermal Contact with Liquid'',
        scenario = ''high'',
        inputs =
          [(''ED'', Num 1), (''NWexp'', Num 1), (''NS'', Num 1),
           (''EY'', Num 40), (''BW'', Num 70), (''ATc'', Num 70),
           (''AT'', Num 40), (''S'', Num 535), (''Qu'', Num (21 / 10)),
           (''FT'', Num 1), (''Yderm'', Num (1 / 10))],
        outputs =
          [(''NW'', Num 1), (''LADD'', Num (321 / 127750)),
           (''ADD'', Num (321 / 73000)), (''APDR'', Num (321 / 200)),
           (''Dexp'', Num (2247 / 20))]\<rparr>"
  by code_simp

text \<open>
  C1, as the specification states it: \<open>LADD \<approx> 0.02514\<close>. The lifetime average daily dose of the
  call is \<open>321 / 127750\<close>, about \<open>0.0025127\<close>: it lies more than \<open>0.02\<close> away from
  \<open>0.02514\<close>.
\<close>

theorem one_hand_liquid_contact_LADD_counterexample:
  "output_of (one_hand_liquid_contact 0.1 ''high'' 535 2.1 1 default_common) ''LADD'' =
     Some (Num (321 / 127750)) \<and>
   \<bar>321 / 127750 - 0.02514\<bar> > (0.02 :: real)"
  by (simp add: one_hand_liquid_contact_golden output_of_def)

text \<open>
  C1, amended: \<open>one_hand_liquid_contact(Yderm=0.1, scenario="high")\<close> with the defaults
  stores \<open>Qu = 2.1\<close> and returns \<open>Dexp = 535 * 2.1 * 0.1 * 1 = 112.35\<close>, \<open>NW = 1\<close>,
  \<open>APDR = 112.35 / 70 = 1.605\<close> and \<open>LADD = (112.35 * 1 * 40) / (70 * 70 * 365)\<close>, which is
  \<open>0.002513\<close> to four significant digits.
\<close>

theorem one_hand_liquid_contact_golden_values:
  "input_of (one_hand_liquid_contact 0.1 ''high'' 535 2.1 1 default_common) ''Qu'' =
     Some (Num 2.1) \<and>
   output_of (one_hand_liquid_contact 0.1 ''high'' 535 2.1 1 default_common) ''Dexp'' =
     Some (Num (535 * 2.1 * 0.1 * 1)) \<and>
   (535 * 2.1 * 0.1 * 1 :: real) = 112.35 \<and>
   output_of (one_hand_liquid_contact 0.1 ''high'' 535 2.1 1 default_common) ''NW'' =
     Some (Num 1) \<and>
   output_of (one_hand_liquid_contact 0.1 ''high'' 535 2.1 1 default_common) ''APDR'' =
     Some (Num (112.35 / 70)) \<and>
   (112.35 / 70 :: real) = 1.605 \<and>
   output_of (one_hand_liquid_contact 0.1 ''high'' 535 2.1 1 default_common) ''LADD'' =
     Some (Num ((112.35 * 1 * 40) / (70 * 70 * 365))) \<and>
   \<bar>(112.35 * 1 * 40) / (70 * 70 * 365) - 0.002513\<bar> < (0.0000005 :: real)"
  by (simp add: one_hand_liquid_contact_golden output_of_def input_of_def)

section \<open>Inputs that pass unchecked, scenarios that are rejected\<close>

text \<open>
  C2. The docstring of \<open>mass_balance\<close> declares \<open>0 \<le> b \<le> 7.9\<close>, and the specification asks that
  a value outside the range makes the construction fail. \<open>mass_balance\<close> stores \<open>b\<close> without
  a check: the call with the arguments of the package's test script and \<open>b = 100\<close>
  returns an instance whose inputs hold \<open>b = 100\<close>.
\<close>

theorem mass_balance_accepts_b_out_of_range:
  "input_of (mass_balance 1 92.141 28.4 0.2 ''indoor,typical'' 298 3000 0.5 24.45 100 8 440
      default_common) ''b'' = Some (Num 100)"
  unfolding input_of_def by code_simp

text \<open>
  C3. \<open>'User'\<close> normalises to \<open>'user'\<close>, a scenario of \<open>pel_limiting_particulates\<close>, and the
  specification asks that the construction succeeds; the constructor tests the string as passed
  and rejects it. A rejected scenario raises \<open>NameError\<close> where the specification asks for a
  \<open>ScenarioException\<close>, here and in a constructor that tests the normalised string.
\<close>

theorem scenario_User_rejected_with_NameError:
  "normalize_scenario ''User'' \<in> set pel_limiting_particulates_get_scenarios \<and>
   pel_limiting_particulates 0.3 ''User'' 15 1 1.25 8 default_common =
     Inl (NameError ''ScenarioException'') \<and>
   \<not> isl (pel_limiting_particulates 0.3 ''user'' 15 1 1.25 8 default_common) \<and>
   one_hand_liquid_contact 0.1 ''medium'' 535 2.1 1 default_common =
     Inl (NameError ''ScenarioException'')"
  by code_simp

section \<open>The averaging time of each constructor\<close>

text \<open>A scenario table stores its own keys only.\<close>

lemma one_hand_liquid_contact_scenario_defaults_frame:
  "key \<noteq> ''Qu'' \<Longrightarrow>
   map_of (one_hand_liquid_contact_scenario_defaults sc Qu kw) key = map_of kw key"
  by (simp add: one_hand_liquid_contact_scenario_defaults_def update_conv')

lemma two_hand_liquid_contact_scenario_defaults_frame:
  "key \<noteq> ''Qu'' \<Longrightarrow>
   map_of (two_hand_liquid_contact_scenario_defaults sc Qu kw) key = map_of kw key"
  by (simp add: two_hand_liquid_contact_scenario_defaults_def update_conv')

lemma two_hand_liquid_immersion_scenario_defaults_frame:
  "key \<noteq> ''Qu'' \<Longrightarrow>
   map_of (two_hand_liquid_immersion_scenario_defaults sc Qu kw) key = map_of kw key"
  by (simp add: two_hand_liquid_immersion_scenario_defaults_def update_conv')

lemma two_hand_solids_contact_scenario_defaults_frame:
  "key \<noteq> ''SQu'' \<Longrightarrow>
   map_of (two_hand_solids_contact_scenario_defaults sc SQu kw) key = map_of kw key"
  by (simp add: two_hand_solids_contact_scenario_defaults_def update_conv')

lemma two_hand_container_surface_contact_scenario_defaults_frame:
  "key \<noteq> ''SQu'' \<Longrightarrow>
   map_of (two_hand_container_surface_contact_scenario_defaults sc SQu kw) key = map_of kw key"
  by (simp add: two_hand_container_surface_contact_scenario_defaults_def update_conv')

lemma user_defined_dermal_scenario_defaults_frame:
  "key \<noteq> ''S'' \<Longrightarrow> key \<noteq> ''Qu'' \<Longrightarrow>
   map_of (user_defined_dermal_scenario_defaults sc S Qu kw) key = map_of kw key"
  by (simp add: user_defined_dermal_scenario_defaults_def update_conv')

lemma small_volume_solids_handling_scenario_defaults_frame:
  "key \<noteq> ''EF'' \<Longrightarrow>
   map_of (small_volume_solids_handling_scenario_defaults sc EF kw) key = map_of kw key"
  by (simp add: small_volume_solids_handling_scenario_defaults_def update_conv')

lemma mass_balance_scenario_defaults_frame:
  "key \<noteq> ''Q'' \<Longrightarrow> key \<noteq> ''k'' \<Longrightarrow>
   map_of (mass_balance_scenario_defaults sc Q k' vz kw) key = map_of kw key"
  by (simp add: mass_balance_scenario_defaults_def update_conv')

lemma automobile_oem_spray_coating_scenario_defaults_frame:
  "key \<noteq> ''KCk'' \<Longrightarrow>
   map_of (automobile_oem_spray_coating_scenario_defaults sc KCk kw) key = map_of kw key"
  by (simp add: automobile_oem_spray_coating_scenario_defaults_def update_conv')

lemma automobile_refinish_spray_coating_scenario_defaults_frame:
  "key \<noteq> ''KCk'' \<Longrightarrow>
   map_of (automobile_refinish_spray_coating_scenario_defaults sc KCk kw) key = map_of kw key"
  by (simp add: automobile_refinish_spray_coating_scenario_defaults_def update_conv')

lemma automobile_spray_coating_scenario_defaults_frame:
  "key \<noteq> ''KCk'' \<Longrightarrow>
   map_of (automobile_spray_coating_scenario_defaults sc KCk kw) key = map_of kw key"
  by (simp add: automobile_spray_coating_scenario_defaults_def update_conv')

lemma uv_roll_coating_scenario_defaults_frame:
  "key \<noteq> ''KCk'' \<Longrightarrow>
   map_of (uv_roll_coating_scenario_defaults sc KCk kw) key = map_of kw key"
  by (simp add: uv_roll_coating_scenario_defaults_def update_conv')

text \<open>
  Each constructor that returns an instance computed \<open>ADD\<close> with \<open>EY\<close> (dermal family)
  or with the argument \<open>AT\<close> (inhalation family) as averaging time.
\<close>

lemma one_hand_liquid_contact_ADD:
  "one_hand_liquid_contact Yderm sc S Qu FT c = Inr m \<Longrightarrow> ADD_averaged_over ''Dexp'' c (EY c) m"
  unfolding one_hand_liquid_contact_def Let_def
  apply (clarsimp simp: Inr_iffs)
  apply (erule (2) tail_ADD)
  apply (simp_all add: update_conv' one_hand_liquid_contact_scenario_defaults_frame)
  done

lemma two_hand_liquid_contact_ADD:
  "two_hand_liquid_contact Yderm sc S Qu FT c = Inr m \<Longrightarrow> ADD_averaged_over ''Dexp'' c (EY c) m"
  unfolding two_hand_liquid_contact_def Let_def
  apply (clarsimp simp: Inr_iffs)
  apply (erule (2) tail_ADD)
  apply (simp_all add: update_conv' two_hand_liquid_contact_scenario_defaults_frame)
  done

lemma two_hand_liquid_immersion_ADD:
  "two_hand_liquid_immersion Yderm sc S Qu FT c = Inr m \<Longrightarrow> ADD_averaged_over ''Dexp'' c (EY c) m"
  unfolding two_hand_liquid_immersion_def Let_def
  apply (clarsimp simp: Inr_iffs)
  apply (erule (2) tail_ADD)
  apply (simp_all add: update_conv' two_hand_liquid_immersion_scenario_defaults_frame)
  done

lemma two_hand_solids_contact_ADD:
  "two_hand_solids_contact Yderm sc SQu FT c = Inr m \<Longrightarrow> ADD_averaged_over ''Dexp'' c (EY c) m"
  unfolding two_hand_solids_contact_def Let_def
  apply (clarsimp simp: Inr_iffs)
  apply (erule (2) tail_ADD)
  apply (simp_all add: update_conv' two_hand_solids_contact_scenario_defaults_frame)
  done

lemma two_hand_container_surface_contact_ADD:
  "two_hand_container_surface_contact Yderm sc SQu FT c = Inr m \<Longrightarrow> ADD_averaged_over ''Dexp'' c (EY c) m"
  unfolding two_hand_container_surface_contact_def Let_def
  apply (clarsimp simp: Inr_iffs)
  apply (erule (2) tail_ADD)
  apply (simp_all add: update_conv' two_hand_container_surface_contact_scenario_defaults_frame)
  done

lemma user_defined_dermal_ADD:
  "user_defined_dermal Yderm sc S Qu FT c = Inr m \<Longrightarrow> ADD_averaged_over ''Dexp'' c (EY c) m"
  unfolding user_defined_dermal_def Let_def
  apply (clarsimp simp: Inr_iffs)
  apply (erule (2) tail_ADD)
  apply (simp_all add: update_conv' user_defined_dermal_scenario_defaults_frame)
  done

lemma small_volume_solids_handling_ADD:
  "small_volume_solids_handling Ys sc EF AH Sd c = Inr m \<Longrightarrow> ADD_averaged_over ''I'' c (AT c) m"
  unfolding small_volume_solids_handling_def Let_def
  apply (clarsimp simp: Inr_iffs)
  apply (erule (2) tail_ADD)
  apply (simp_all add: update_conv' small_volume_solids_handling_scenario_defaults_frame)
  done

lemma mass_balance_ADD:
  "mass_balance G MW VP X sc T Q k Vm b h vz c = Inr m \<Longrightarrow> ADD_averaged_over ''I'' c (AT c) m"
  unfolding mass_balance_def Let_def
  apply (clarsimp simp: Inr_iffs)
  apply (erule (2) tail_ADD)
  apply (simp_all add: update_conv' mass_balance_scenario_defaults_frame)
  done

lemma pel_limiting_particulates_ADD:
  "pel_limiting_particulates Ys sc KCk Ypel b h c = Inr m \<Longrightarrow> ADD_averaged_over ''I'' c (AT c) m"
  unfolding pel_limiting_particulates_def Let_def
  apply (clarsimp simp: Inr_iffs)
  apply (erule (2) tail_ADD)
  apply (simp_all add: update_conv')
  done

lemma pel_limiting_vapors_ADD:
  "pel_limiting_vapors Cvk VP Ys MW VPpel Ypel MWpel X sc Vm b h c = Inr m \<Longrightarrow> ADD_averaged_over ''I'' c (AT c) m"
  unfolding pel_limiting_vapors_def Let_def
  apply (clarsimp simp: Inr_iffs)
  apply (erule (2) tail_ADD)
  apply (simp_all add: update_conv')
  done

lemma total_pnor_pel_limiting_ADD:
  "total_pnor_pel_limiting Ys sc KCk b h c = Inr m \<Longrightarrow> ADD_averaged_over ''I'' c (AT c) m"
  unfolding total_pnor_pel_limiting_def Let_def
  apply (clarsimp simp: Inr_iffs)
  apply (erule (2) tail_ADD)
  apply (simp_all add: update_conv')
  done

lemma respirable_pnor_pel_limiting_ADD:
  "respirable_pnor_pel_limiting Ys sc KCk b h c = Inr m \<Longrightarrow> ADD_averaged_over ''I'' c (AT c) m"
  unfolding respirable_pnor_pel_limiting_def Let_def
  apply (clarsimp simp: Inr_iffs)
  apply (erule (2) tail_ADD)
  apply (simp_all add: update_conv')
  done

lemma automobile_oem_spray_coating_ADD:
  "automobile_oem_spray_coating Ymist sc KCk Ys Ysf b h c = Inr m \<Longrightarrow> ADD_averaged_over ''I'' c (AT c) m"
  unfolding automobile_oem_spray_coating_def Let_def
  apply (clarsimp simp: Inr_iffs)
  apply (erule (2) tail_ADD)
  apply (simp_all add: update_conv' automobile_oem_spray_coating_scenario_defaults_frame)
  done

lemma automobile_refinish_spray_coating_ADD:
  "automobile_refinish_spray_coating Ymist sc Ys KCk Ysf b h c = Inr m \<Longrightarrow> ADD_averaged_over ''I'' c (AT c) m"
  unfolding automobile_refinish_spray_coating_def Let_def
  apply (clarsimp simp: Inr_iffs)
  apply (erule (2) tail_ADD)
  apply (simp_all add: update_conv' automobile_refinish_spray_coating_scenario_defaults_frame)
  done

lemma automobile_spray_coating_ADD:
  "automobile_spray_coating sc KCk b h c = Inr m \<Longrightarrow> ADD_averaged_over ''I'' c (AT c) m"
  unfolding automobile_spray_coating_def Let_def
  apply (clarsimp simp: Inr_iffs)
  apply (erule (2) tail_ADD)
  apply (simp_all add: update_conv' automobile_spray_coating_scenario_defaults_frame)
  done

lemma uv_roll_coating_ADD:
  "uv_roll_coating Ymist sc KCk Ys Ysf b h c = Inr m \<Longrightarrow> ADD_averaged_over ''I'' c (AT c) m"
  unfolding uv_roll_coating_def Let_def
  apply (clarsimp simp: Inr_iffs)
  apply (erule (2) tail_ADD)
  apply (simp_all add: update_conv' uv_roll_coating_scenario_defaults_frame)
  done

lemma user_defined_inhalation_ADD:
  "user_defined_inhalation Cv MW h sc Cm Vm Ys b c = Inr m \<Longrightarrow> ADD_averaged_over ''I'' c (AT c) m"
  unfolding user_defined_inhalation_def Let_def
  apply (clarsimp simp: Inr_iffs)
  apply (erule (2) tail_ADD)
  apply (simp_all add: update_conv')
  done

text \<open>The dermal constructors do not read their argument \<open>AT\<close>.\<close>

lemma one_hand_liquid_contact_ignores_AT:
  "one_hand_liquid_contact Yderm sc S Qu FT (c\<lparr>AT := a\<rparr>) = one_hand_liquid_contact Yderm sc S Qu FT c"
  by (simp only: one_hand_liquid_contact_def dermal_model_init_ignores_AT)

lemma two_hand_liquid_contact_ignores_AT:
  "two_hand_liquid_contact Yderm sc S Qu FT (c\<lparr>AT := a\<rparr>) = two_hand_liquid_contact Yderm sc S Qu FT c"
  by (simp only: two_hand_liquid_contact_def dermal_model_init_ignores_AT)

lemma two_hand_liquid_immersion_ignores_AT:
  "two_hand_liquid_immersion Yderm sc S Qu FT (c\<lparr>AT := a\<rparr>) = two_hand_liquid_immersion Yderm sc S Qu FT c"
  by (simp only: two_hand_liquid_immersion_def dermal_model_init_ignores_AT)

lemma two_hand_solids_contact_ignores_AT:
  "two_hand_solids_contact Yderm sc SQu FT (c\<lparr>AT := a\<rparr>) = two_hand_solids_contact Yderm sc SQu FT c"
  by (simp only: two_hand_solids_contact_def dermal_model_init_ignores_AT)

lemma two_hand_container_surface_contact_ignores_AT:
  "two_hand_container_surface_contact Yderm sc SQu FT (c\<lparr>AT := a\<rparr>) = two_hand_container_surface_contact Yderm sc SQu FT c"
  by (simp only: two_hand_container_surface_contact_def dermal_model_init_ignores_AT)

lemma user_defined_dermal_ignores_AT:
  "user_defined_dermal Yderm sc S Qu FT (c\<lparr>AT := a\<rparr>) = user_defined_dermal Yderm sc S Qu FT c"
  by (simp only: user_defined_dermal_def dermal_model_init_ignores_AT)

text \<open>
  C8. Every constructor of the dermal family computes \<open>ADD\<close> with the averaging time
  \<open>EY\<close>, whatever \<open>AT\<close> the caller passes (the result does not depend on that argument
  at all), and every constructor of the inhalation family computes \<open>ADD\<close> with the
  \<open>AT\<close> the caller passes.
\<close>

theorem averaging_time_by_family:
  "(\<forall>Yderm sc S Qu FT c m. one_hand_liquid_contact Yderm sc S Qu FT c = Inr m \<longrightarrow>
      ADD_averaged_over ''Dexp'' c (EY c) m) \<and>
   (\<forall>Yderm sc S Qu FT c a. one_hand_liquid_contact Yderm sc S Qu FT (c\<lparr>AT := a\<rparr>) =
      one_hand_liquid_contact Yderm sc S Qu FT c) \<and>
   (\<forall>Yderm sc S Qu FT c m. two_hand_liquid_contact Yderm sc S Qu FT c = Inr m \<longrightarrow>
      ADD_averaged_over ''Dexp'' c (EY c) m) \<and>
   (\<forall>Yderm sc S Qu FT c a. two_hand_liquid_contact Yderm sc S Qu FT (c\<lparr>AT := a\<rparr>) =
      two_hand_liquid_contact Yderm sc S Qu FT c) \<and>
   (\<forall>Yderm sc S Qu FT c m. two_hand_liquid_immersion Yderm sc S Qu FT c = Inr m \<longrightarrow>
      ADD_averaged_over ''Dexp'' c (EY c) m) \<and>
   (\<forall>Yderm sc S Qu FT c a. two_hand_liquid_immersion Yderm sc S Qu FT (c\<lparr>AT := a\<rparr>) =
      two_hand_liquid_immersion Yderm sc S Qu FT c) \<and>
   (\<forall>Yderm sc SQu FT c m. two_hand_solids_contact Yderm sc SQu FT c = Inr m \<longrightarrow>
      ADD_averaged_over ''Dexp'' c (EY c) m) \<and>
   (\<forall>Yderm sc SQu FT c a. two_hand_solids_contact Yderm sc SQu FT (c\<lparr>AT := a\<rparr>) =
      two_hand_solids_contact Yderm sc SQu FT c) \<and>
   (\<forall>Yderm sc SQu FT c m. two_hand_container_surface_contact Yderm sc SQu FT c = Inr m \<longrightarrow>
      ADD_averaged_over ''Dexp'' c (EY c) m) \<and>
   (\<forall>Yderm sc SQu FT c a. two_hand_container_surface_contact Yderm sc SQu FT (c\<lparr>AT := a\<rparr>) =
      two_hand_container_surface_contact Yderm sc SQu FT c) \<and>
   (\<forall>Yderm sc S Qu FT c m. user_defined_dermal Yderm sc S Qu FT c = Inr m \<longrightarrow>
      ADD_averaged_over ''Dexp'' c (EY c) m) \<and>
   (\<forall>Yderm sc S Qu FT c a. user_defined_dermal Yderm sc S Qu FT (c\<lparr>AT := a\<rparr>) =
      user_defined_dermal Yderm sc S Qu FT c) \<and>
   (\<forall>Ys sc EF AH Sd c m. small_volume_solids_handling Ys sc EF AH Sd c = Inr m \<longrightarrow>
      ADD_averaged_over ''I'' c (AT c) m) \<and>
   (\<forall>G MW VP X sc T Q k Vm b h vz c m. mass_balance G MW VP X sc T Q k Vm b h vz c = Inr m \<longrightarrow>
      ADD_averaged_over ''I'' c (AT c) m) \<and>
   (\<forall>Ys sc KCk Ypel b h c m. pel_limiting_particulates Ys sc KCk Ypel b h c = Inr m \<longrightarrow>
      ADD_averaged_over ''I'' c (AT c) m) \<and>
   (\<forall>Cvk VP Ys MW VPpel Ypel MWpel X sc Vm b h c m. pel_limiting_vapors Cvk VP Ys MW VPpel Ypel MWpel X sc Vm b h c = Inr m \<longrightarrow>
      ADD_averaged_over ''I'' c (AT c) m) \<and>
   (\<forall>Ys sc KCk b h c m. total_pnor_pel_limiting Ys sc KCk b h c = Inr m \<longrightarrow>
      ADD_averaged_over ''I'' c (AT c) m) \<and>
   (\<forall>Ys sc KCk b h c m. respirable_pnor_pel_limiting Ys sc KCk b h c = Inr m \<longrightarrow>
      ADD_averaged_over ''I'' c (AT c) m) \<and>
   (\<forall>Ymist sc KCk Ys Ysf b h c m. automobile_oem_spray_coating Ymist sc KCk Ys Ysf b h c = Inr m \<longrightarrow>
      ADD_averaged_over ''I'' c (AT c) m) \<and>
   (\<forall>Ymist sc Ys KCk Ysf b h c m. automobile_refinish_spray_coating Ymist sc Ys KCk Ysf b h c = Inr m \<longrightarrow>
      ADD_averaged_over ''I'' c (AT c) m) \<and>
   (\<forall>sc KCk b h c m. automobile_spray_coating sc KCk b h c = Inr m \<longrightarrow>
      ADD_averaged_over ''I'' c (AT c) m) \<and>
   (\<forall>Ymist sc KCk Ys Ysf b h c m. uv_roll_coating Ymist sc KCk Ys Ysf b h c = Inr m \<longrightarrow>
      ADD_averaged_over ''I'' c (AT c) m) \<and>
   (\<forall>Cv MW h sc Cm Vm Ys b c m. user_defined_inhalation Cv MW h sc Cm Vm Ys b c = Inr m \<longrightarrow>
      ADD_averaged_over ''I'' c (AT c) m)"
  by (intro conjI allI impI)
    (erule one_hand_liquid_contact_ADD,
     rule one_hand_liquid_contact_ignores_AT,
     erule two_hand_liquid_contact_ADD,
     rule two_hand_liquid_contact_ignores_AT,
     erule two_hand_liquid_immersion_ADD,
     rule two_hand_liquid_immersion_ignores_AT,
     erule two_hand_solids_contact_ADD,
     rule two_hand_solids_contact_ignores_AT,
     erule two_hand_container_surface_contact_ADD,
     rule two_hand_container_surface_contact_ignores_AT,
     erule user_defined_dermal_ADD,
     rule user_defined_dermal_ignores_AT,
     erule small_volume_solids_handling_ADD,
     erule mass_balance_ADD,
     erule pel_limiting_particulates_ADD,
     erule pel_limiting_vapors_ADD,
     erule total_pnor_pel_limiting_ADD,
     erule respirable_pnor_pel_limiting_ADD,
     erule automobile_oem_spray_coating_ADD,
     erule automobile_refinish_spray_coating_ADD,
     erule automobile_spray_coating_ADD,
     erule uv_roll_coating_ADD,
     erule user_defined_inhalation_ADD)

text \<open>
  The witness calls every constructor with \<open>EY = 40\<close> and \<open>AT = 45\<close>: each call returns
  an instance, averaged over 40 years in the dermal family and over 45 in the
  inhalation family.
\<close>

theorem averaging_time_by_family_witness:
  "(\<exists>m. one_hand_liquid_contact 0.1 ''high'' 535 2.1 1 (default_common\<lparr>AT := 45\<rparr>) = Inr m \<and>
      ADD_averaged_over ''Dexp'' (default_common\<lparr>AT := 45\<rparr>) 40 m) \<and>
   (\<exists>m. two_hand_liquid_contact 0.2 ''low'' 1070 2.1 1 (default_common\<lparr>AT := 45\<rparr>) = Inr m \<and>
      ADD_averaged_over ''Dexp'' (default_common\<lparr>AT := 45\<rparr>) 40 m) \<and>
   (\<exists>m. two_hand_liquid_immersion 0.3 ''high'' 1070 10.3 1 (default_common\<lparr>AT := 45\<rparr>) = Inr m \<and>
      ADD_averaged_over ''Dexp'' (default_common\<lparr>AT := 45\<rparr>) 40 m) \<and>
   (\<exists>m. two_hand_solids_contact 0.4 ''high'' 3100 1 (default_common\<lparr>AT := 45\<rparr>) = Inr m \<and>
      ADD_averaged_over ''Dexp'' (default_common\<lparr>AT := 45\<rparr>) 40 m) \<and>
   (\<exists>m. two_hand_container_surface_contact 0.5 ''user'' 1100 1 (default_common\<lparr>AT := 45\<rparr>) = Inr m \<and>
      ADD_averaged_over ''Dexp'' (default_common\<lparr>AT := 45\<rparr>) 40 m) \<and>
   (\<exists>m. user_defined_dermal 0.6 ''user'' 1070 2.1 1 (default_common\<lparr>AT := 45\<rparr>) = Inr m \<and>
      ADD_averaged_over ''Dexp'' (default_common\<lparr>AT := 45\<rparr>) 40 m) \<and>
   (\<exists>m. small_volume_solids_handling 0.1 ''typical'' 0.0477 1 1 (default_common\<lparr>AT := 45\<rparr>) = Inr m \<and>
      ADD_averaged_over ''I'' (default_common\<lparr>AT := 45\<rparr>) 45 m) \<and>
   (\<exists>m. mass_balance 1 92.141 28.4 0.2 ''indoor,typical'' 298 3000 0.5 24.45 1.25 8 440 (default_common\<lparr>AT := 45\<rparr>) = Inr m \<and>
      ADD_averaged_over ''I'' (default_common\<lparr>AT := 45\<rparr>) 45 m) \<and>
   (\<exists>m. pel_limiting_particulates 0.3 ''user'' 15 1 1.25 8 (default_common\<lparr>AT := 45\<rparr>) = Inr m \<and>
      ADD_averaged_over ''I'' (default_common\<lparr>AT := 45\<rparr>) 45 m) \<and>
   (\<exists>m. pel_limiting_vapors 500 23.7564 0.4 18.015 28.4 0.6 92.141 0.5 ''user'' 24.45 1.25 8 (default_common\<lparr>AT := 45\<rparr>) = Inr m \<and>
      ADD_averaged_over ''I'' (default_common\<lparr>AT := 45\<rparr>) 45 m) \<and>
   (\<exists>m. total_pnor_pel_limiting 0.5 ''user'' 15 1.25 8 (default_common\<lparr>AT := 45\<rparr>) = Inr m \<and>
      ADD_averaged_over ''I'' (default_common\<lparr>AT := 45\<rparr>) 45 m) \<and>
   (\<exists>m. respirable_pnor_pel_limiting 0.6 ''user'' 5 1.25 8 (default_common\<lparr>AT := 45\<rparr>) = Inr m \<and>
      ADD_averaged_over ''I'' (default_common\<lparr>AT := 45\<rparr>) 45 m) \<and>
   (\<exists>m. automobile_oem_spray_coating 0.7 ''conventional,downdraft'' 2.3 None 0.25 1.25 8 (default_common\<lparr>AT := 45\<rparr>) = Inr m \<and>
      ADD_averaged_over ''I'' (default_common\<lparr>AT := 45\<rparr>) 45 m) \<and>
   (\<exists>m. automobile_refinish_spray_coating 0.8 ''conventional,crossdraft'' None 15 0.25 1.25 8 (default_common\<lparr>AT := 45\<rparr>) = Inr m \<and>
      ADD_averaged_over ''I'' (default_common\<lparr>AT := 45\<rparr>) 45 m) \<and>
   (\<exists>m. automobile_spray_coating ''high,conventional,crossdraft'' 18.4 1.25 8 (default_common\<lparr>AT := 45\<rparr>) = Inr m \<and>
      ADD_averaged_over ''I'' (default_common\<lparr>AT := 45\<rparr>) 45 m) \<and>
   (\<exists>m. uv_roll_coating 0.9 ''high end of range'' 0.26 None 0.25 1.25 8 (default_common\<lparr>AT := 45\<rparr>) = Inr m \<and>
      ADD_averaged_over ''I'' (default_common\<lparr>AT := 45\<rparr>) 45 m) \<and>
   (\<exists>m. user_defined_inhalation 500 92.141 8 ''user'' None 24.45 1 1.25 (default_common\<lparr>AT := 45\<rparr>) = Inr m \<and>
      ADD_averaged_over ''I'' (default_common\<lparr>AT := 45\<rparr>) 45 m)"
proof -
  let ?c = "default_common\<lparr>AT := 45\<rparr>"
  have c: "EY ?c = 40" "AT ?c = 45"
    by (simp_all add: default_common_def)
  have ok: "\<not> isl r \<Longrightarrow> \<exists>m. r = Inr m" for r :: "error + model"
    by (cases r) simp_all
  have w0: "\<exists>m. one_hand_liquid_contact 0.1 ''high'' 535 2.1 1 ?c = Inr m \<and>
      ADD_averaged_over ''Dexp'' ?c 40 m"
  proof -
    have "\<not> isl (one_hand_liquid_contact 0.1 ''high'' 535 2.1 1 ?c)"
      by code_simp
    from ok [OF this] obtain m where m: "one_hand_liquid_contact 0.1 ''high'' 535 2.1 1 ?c = Inr m" ..
    from averaging_time_by_family [THEN conjunct1, rule_format, OF m]
    show ?thesis
      using m c by auto
  qed
  have w1: "\<exists>m. two_hand_liquid_contact 0.2 ''low'' 1070 2.1 1 ?c = Inr m \<and>
      ADD_averaged_over ''Dexp'' ?c 40 m"
  proof -
    have "\<not> isl (two_hand_liquid_contact 0.2 ''low'' 1070 2.1 1 ?c)"
      by code_simp
    from ok [OF this] obtain m where m: "two_hand_liquid_contact 0.2 ''low'' 1070 2.1 1 ?c = Inr m" ..
    from averaging_time_by_family [THEN conjunct2, THEN conjunct2, THEN conjunct1, rule_format, OF m]
    show ?thesis
      using m c by auto
  qed
  have w2: "\<exists>m. two_hand_liquid_immersion 0.3 ''high'' 1070 10.3 1 ?c = Inr m \<and>
      ADD_averaged_over ''Dexp'' ?c 40 m"
  proof -
    have "\<not> isl (two_hand_liquid_immersion 0.3 ''high'' 1070 10.3 1 ?c)"
      by code_simp
    from ok [OF this] obtain m where m: "two_hand_liquid_immersion 0.3 ''high'' 1070 10.3 1 ?c = Inr m" ..
    from averaging_time_by_family [THEN conjunct2, THEN conjunct2, THEN conjunct2, THEN conjunct2, THEN conjunct1, rule_format, OF m]
    show ?thesis
      using m c by auto
  qed
  have w3: "\<exists>m. two_hand_solids_contact 0.4 ''high'' 3100 1 ?c = Inr m \<and>
      ADD_averaged_over ''Dexp'' ?c 40 m"
  proof -
    have "\<not> isl (two_hand_solids_contact 0.4 ''high'' 3100 1 ?c)"
      by code_simp
    from ok [OF this] obtain m where m: "two_hand_solids_contact 0.4 ''high'' 3100 1 ?c = Inr m" ..
    from averaging_time_by_family [THEN conjunct2, THEN conjunct2, THEN conjunct2, THEN conjunct2, THEN conjunct2, THEN conjunct2, THEN conjunct1, rule_format, OF m]
    show ?thesis
      using m c by auto
  qed
  have w4: "\<exists>m. two_hand_container_surface_contact 0.5 ''user'' 1100 1 ?c = Inr m \<and>
      ADD_averaged_over ''Dexp'' ?c 40 m"
  proof -
    have "\<not> isl (two_hand_container_surface_contact 0.5 ''user'' 1100 1 ?c)"
      by code_simp
    from ok [OF this] obtain m where m: "two_hand_container_surface_contact 0.5 ''user'' 1100 1 ?c = Inr m" ..
    from averaging_time_by_family [THEN conjunct2, THEN conjunct2, THEN conjunct2, THEN conjunct2, THEN conjunct2, THEN conjunct2, THEN conjunct2, THEN conjunct2, THEN conjunct1, rule_format, OF m]
    show ?thesis
      using m c by auto
  qed
  have w5: "\<exists>m. user_defined_dermal 0.6 ''user'' 1070 2.1 1 ?c = Inr m \<and>
      ADD_averaged_over ''Dexp'' ?c 40 m"
  proof -
    have "\<not> isl (user_defined_dermal 0.6 ''user'' 1070 2.1 1 ?c)"
      by code_simp
    from ok [OF this] obtain m where m: "user_defined_dermal 0.6 ''user'' 1070 2.1 1 ?c = Inr m" ..
    from averaging_time_by_family [THEN conjunct2, THEN conjunct2, THEN conjunct2, THEN conjunct2, THEN conjunct2, THEN conjunct2, THEN conjunct2, THEN conjunct2, THEN conjunct2, THEN conjunct2, THEN conjunct1, rule_format, OF m]
    show ?thesis
      using m c by auto
  qed
  have w6: "\<exists>m. small_volume_solids_handling 0.1 ''typical'' 0.0477 1 1 ?c = Inr m \<and>
      ADD_averaged_over ''I'' ?c 45 m"
  proof -
    have "\<not> isl (small_volume_solids_handling 0.1 ''typical'' 0.0477 1 1 ?c)"
      by code_simp
    from ok [OF this] obtain m where m: "small_volume_solids_handling 0.1 ''typical'' 0.0477 1 1 ?c = Inr m" ..
    from averaging_time_by_family [THEN conjunct2, THEN conjunct2, THEN conjunct2, THEN conjunct2, THEN conjunct2, THEN conjunct2, THEN conjunct2, THEN conjunct2, THEN conjunct2, THEN conjunct2, THEN conjunct2, THEN conjunct2, THEN conjunct1, rule_format, OF m]
    show ?thesis
      using m c by auto
  qed
  have w7: "\<exists>m. mass_balance 1 92.141 28.4 0.2 ''indoor,typical'' 298 3000 0.5 24.45 1.25 8 440 ?c = Inr m \<and>
      ADD_averaged_over ''I'' ?c 45 m"
  proof -
    have "\<not> isl (mass_balance 1 92.141 28.4 0.2 ''indoor,typical'' 298 3000 0.5 24.45 1.25 8 440 ?c)"
      by code_simp
    from ok [OF this] obtain m where m: "mass_balance 1 92.141 28.4 0.2 ''indoor,typical'' 298 3000 0.5 24.45 1.25 8 440 ?c = Inr m" ..
    from averaging_time_by_family [THEN conjunct2, THEN conjunct2, THEN conjunct2, THEN conjunct2, THEN conjunct2, THEN conjunct2, THEN conjunct2, THEN conjunct2, THEN conjunct2, THEN conjunct2, THEN conjunct2, THEN conjunct2, THEN conjunct2, THEN conjunct1, rule_format, OF m]
    show ?thesis
      using m c by auto
  qed
  have w8: "\<exists>m. pel_limiting_particulates 0.3 ''user'' 15 1 1.25 8 ?c = Inr m \<and>
      ADD_averaged_over ''I'' ?c 45 m"
  proof -
    have "\<not> isl (pel_limiting_particulates 0.3 ''user'' 15 1 1.25 8 ?c)"
      by code_simp
    from ok [OF this] obtain m where m: "pel_limiting_particulates 0.3 ''user'' 15 1 1.25 8 ?c = Inr m" ..
    from averaging_time_by_family [THEN conjunct2, THEN conjunct2, THEN conjunct2, THEN conjunct2, THEN conjunct2, THEN conjunct2, THEN conjunct2, THEN conjunct2, THEN conjunct2, THEN conjunct2, THEN conjunct2, THEN conjunct2, THEN conjunct2, THEN conjunct2, THEN conjunct1, rule_format, OF m]
    show ?thesis
      using m c by auto
  qed
  have w9: "\<exists>m. pel_limiting_vapors 500 23.7564 0.4 18.015 28.4 0.6 92.141 0.5 ''user'' 24.45 1.25 8 ?c = Inr m \<and>
      ADD_averaged_over ''I'' ?c 45 m"
  proof -
    have "\<not> isl (pel_limiting_vapors 500 23.7564 0.4 18.015 28.4 0.6 92.141 0.5 ''user'' 24.45 1.25 8 ?c)"
      by code_simp
    from ok [OF this] obtain m where m: "pel_limiting_vapors 500 23.7564 0.4 18.015 28.4 0.6 92.141 0.5 ''user'' 24.45 1.25 8 ?c = Inr m" ..
    from averaging_time_by_family [THEN conjunct2, THEN conjunct2, THEN conjunct2, THEN conjunct2, THEN conjunct2, THEN conjunct2, THEN conjunct2, THEN conjunct2, THEN conjunct2, THEN conjunct2, THEN conjunct2, THEN conjunct2, THEN conjunct2, THEN conjunct2, THEN conjunct2, THEN conjunct1, rule_format, OF m]
    show ?thesis
      using m c by auto
  qed
  have w10: "\<exists>m. total_pnor_pel_limiting 0.5 ''user'' 15 1.25 8 ?c = Inr m \<and>
      ADD_averaged_over ''I'' ?c 45 m"
  proof -
    have "\<not> isl (total_pnor_pel_limiting 0.5 ''user'' 15 1.25 8 ?c)"
      by code_simp
    from ok [OF this] obtain m where m: "total_pnor_pel_limiting 0.5 ''user'' 15 1.25 8 ?c = Inr m" ..
    from averaging_time_by_family [THEN conjunct2, THEN conjunct2, THEN conjunct2, THEN conjunct2, THEN conjunct2, THEN conjunct2, THEN conjunct2, THEN conjunct2, THEN conjunct2, THEN conjunct2, THEN conjunct2, THEN conjunct2, THEN conjunct2, THEN conjunct2, THEN conjunct2, THEN conjunct2, THEN conjunct1, rule_format, OF m]
    show ?thesis
      using m c by auto
  qed
  have w11: "\<exists>m. respirable_pnor_pel_limiting 0.6 ''user'' 5 1.25 8 ?c = Inr m \<and>
      ADD_averaged_over ''I'' ?c 45 m"
  proof -
    have "\<not> isl (respirable_pnor_pel_limiting 0.6 ''user'' 5 1.25 8 ?c)"
      by code_simp
    from ok [OF this] obtain m where m: "respirable_pnor_pel_limiting 0.6 ''user'' 5 1.25 8 ?c = Inr m" ..
    from averaging_time_by_family [THEN conjunct2, THEN conjunct2, THEN conjunct2, THEN conjunct2, THEN conjunct2, THEN conjunct2, THEN conjunct2, THEN conjunct2, THEN conjunct2, THEN conjunct2, THEN conjunct2, THEN conjunct2, THEN conjunct2, THEN conjunct2, THEN conjunct2, THEN conjunct2, THEN conjunct2, THEN conjunct1, rule_format, OF m]
    show ?thesis
      using m c by auto
  qed
  have w12: "\<exists>m. automobile_oem_spray_coating 0.7 ''conventional,downdraft'' 2.3 None 0.25 1.25 8 ?c = Inr m \<and>
      ADD_averaged_over ''I'' ?c 45 m"
  proof -
    have "\<not> isl (automobile_oem_spray_coating 0.7 ''conventional,downdraft'' 2.3 None 0.25 1.25 8 ?c)"
      by code_simp
    from ok [OF this] obtain m where m: "automobile_oem_spray_coating 0.7 ''conventional,downdraft'' 2.3 None 0.25 1.25 8 ?c = Inr m" ..
    from averaging_time_by_family [THEN conjunct2, THEN conjunct2, THEN conjunct2, THEN conjunct2, THEN conjunct2, THEN conjunct2, THEN conjunct2, THEN conjunct2, THEN conjunct2, THEN conjunct2, THEN conjunct2, THEN conjunct2, THEN conjunct2, THEN conjunct2, THEN conjunct2, THEN conjunct2, THEN conjunct2, THEN conjunct2, THEN conjunct1, rule_format, OF m]
    show ?thesis
      using m c by auto
  qed
  have w13: "\<exists>m. automobile_refinish_spray_coating 0.8 ''conventional,crossdraft'' None 15 0.25 1.25 8 ?c = Inr m \<and>
      ADD_averaged_over ''I'' ?c 45 m"
  proof -
    have "\<not> isl (automobile_refinish_spray_coating 0.8 ''conventional,crossdraft'' None 15 0.25 1.25 8 ?c)"
      by code_simp
    from ok [OF this] obtain m where m: "automobile_refinish_spray_coating 0.8 ''conventional,crossdraft'' None 15 0.25 1.25 8 ?c = Inr m" ..
    from averaging_time_by_family [THEN conjunct2, THEN conjunct2, THEN conjunct2, THEN conjunct2, THEN conjunct2, THEN conjunct2, THEN conjunct2, THEN conjunct2, THEN conjunct2, THEN conjunct2, THEN conjunct2, THEN conjunct2, THEN conjunct2, THEN conjunct2, THEN conjunct2, THEN conjunct2, THEN conjunct2, THEN conjunct2, THEN conjunct2, THEN conjunct1, rule_format, OF m]
    show ?thesis
      using m c by auto
  qed
  have w14: "\<exists>m. automobile_spray_coating ''high,conventional,crossdraft'' 18.4 1.25 8 ?c = Inr m \<and>
      ADD_averaged_over ''I'' ?c 45 m"
  proof -
    have "\<not> isl (automobile_spray_coating ''high,conventional,crossdraft'' 18.4 1.25 8 ?c)"
      by code_simp
    from ok [OF this] obtain m where m: "automobile_spray_coating ''high,conventional,crossdraft'' 18.4 1.25 8 ?c = Inr m" ..
    from averaging_time_by_family [THEN conjunct2, THEN conjunct2, THEN conjunct2, THEN conjunct2, THEN conjunct2, THEN conjunct2, THEN conjunct2, THEN conjunct2, THEN conjunct2, THEN conjunct2, THEN conjunct2, THEN conjunct2, THEN conjunct2, THEN conjunct2, THEN conjunct2, THEN conjunct2, THEN conjunct2, THEN conjunct2, THEN conjunct2, THEN conjunct2, THEN conjunct1, rule_format, OF m]
    show ?thesis
      using m c by auto
  qed
  have w15: "\<exists>m. uv_roll_coating 0.9 ''high end of range'' 0.26 None 0.25 1.25 8 ?c = Inr m \<and>
      ADD_averaged_over ''I'' ?c 45 m"
  proof -
    have "\<not> isl (uv_roll_coating 0.9 ''high end of range'' 0.26 None 0.25 1.25 8 ?c)"
      by code_simp
    from ok [OF this] obtain m where m: "uv_roll_coating 0.9 ''high end of range'' 0.26 None 0.25 1.25 8 ?c = Inr m" ..
    from averaging_time_by_family [THEN conjunct2, THEN conjunct2, THEN conjunct2, THEN conjunct2, THEN conjunct2, THEN conjunct2, THEN conjunct2, THEN conjunct2, THEN conjunct2, THEN conjunct2, THEN conjunct2, THEN conjunct2, THEN conjunct2, THEN conjunct2, THEN conjunct2, THEN conjunct2, THEN conjunct2, THEN conjunct2, THEN conjunct2, THEN conjunct2, THEN conjunct2, THEN conjunct1, rule_format, OF m]
    show ?thesis
      using m c by auto
  qed
  have w16: "\<exists>m. user_defined_inhalation 500 92.141 8 ''user'' None 24.45 1 1.25 ?c = Inr m \<and>
      ADD_averaged_over ''I'' ?c 45 m"
  proof -
    have "\<not> isl (user_defined_inhalation 500 92.141 8 ''user'' None 24.45 1 1.25 ?c)"
      by code_simp
    from ok [OF this] obtain m where m: "user_defined_inhalation 500 92.141 8 ''user'' None 24.45 1 1.25 ?c = Inr m" ..
    from averaging_time_by_family [THEN conjunct2, THEN conjunct2, THEN conjunct2, THEN conjunct2, THEN conjunct2, THEN conjunct2, THEN conjunct2, THEN conjunct2, THEN conjunct2, THEN conjunct2, THEN conjunct2, THEN conjunct2, THEN conjunct2, THEN conjunct2, THEN conjunct2, THEN conjunct2, THEN conjunct2, THEN conjunct2, THEN conjunct2, THEN conjunct2, THEN conjunct2, THEN conjunct2, rule_format, OF m]
    show ?thesis
      using m c by auto
  qed
  show ?thesis
    by (intro conjI w0 w1 w2 w3 w4 w5 w6 w7 w8 w9 w10 w11 w12 w13 w14 w15 w16)
qed

section \<open>The concentrations of \<open>mass_balance\<close>\<close>

lemma mass_balance_scenario_defaults_Q_k:
  assumes "sc \<in> set mass_balance_get_scenarios"
  shows "map_of (mass_balance_scenario_defaults sc Q k' vz kw) ''Q'' =
           Some (Num (if sc = ''indoor,typical'' then 3000
                      else if sc = ''indoor,worst-case'' then 500
                      else if sc = ''outdoor,typical'' then 237600
                      else if sc = ''outdoor,worst-case'' then 26400 * (60 * vz / 5280) ^ 3
                      else Q))"
    and "map_of (mass_balance_scenario_defaults sc Q k' vz kw) ''k'' =
           Some (Num (if sc = ''indoor,typical'' then 0.5
                      else if sc = ''indoor,worst-case'' then 0.1
                      else if sc = ''outdoor,typical'' then 0.5
                      else if sc = ''outdoor,worst-case'' then 0.1
                      else k'))"
  using assms
  by (auto simp: mass_balance_scenario_defaults_def mass_balance_get_scenarios_def
                 update_conv')

text \<open>What a call of \<open>mass_balance\<close> that returns an instance went through.\<close>

lemma mass_balance_InrE [consumes 1, case_names ok]:
  assumes "mass_balance G MW VP X sc T Q k' Vm b h vz c = Inr m"
  obtains kw ins kw1 cv cm kw2 outs where
    "snapshot_inputs kw = Inr (ins, kw1)"
    "mass_balance_Cv kw1 = Inr cv"
    "mass_balance_Cm (AList.update ''Cv'' (Num cv) kw1) = Inr cm"
    "exposure_outputs (AList.update ''Cm'' (Num cm) (AList.update ''Cv'' (Num cv) kw1)) =
       Inr kw2"
    "freeze_outputs ''I'' kw2 = Inr outs"
    "inputs m = ins" "outputs m = outs" "scenario m = normalize_scenario sc"
    "normalize_scenario sc \<in> set mass_balance_get_scenarios"
    "map_of kw ''skips'' = Some (Names initial_skips)"
    "map_of kw ''T'' = Some (Num T)" "map_of kw ''G'' = Some (Num G)"
    "map_of kw ''MW'' = Some (Num MW)" "map_of kw ''X'' = Some (Num X)"
    "map_of kw ''VP'' = Some (Num VP)" "map_of kw ''Vm'' = Some (Num Vm)"
    "map_of kw ''Q'' =
       map_of (mass_balance_scenario_defaults (normalize_scenario sc) Q k' vz []) ''Q''"
    "map_of kw ''k'' =
       map_of (mass_balance_scenario_defaults (normalize_scenario sc) Q k' vz []) ''k''"
    "map_of kw ''Cv'' = None" "map_of kw ''Cm'' = None"
proof -
  have "\<exists>kw ins kw1 cv cm kw2 outs.
    snapshot_inputs kw = Inr (ins, kw1) \<and>
    mass_balance_Cv kw1 = Inr cv \<and>
    mass_balance_Cm (AList.update ''Cv'' (Num cv) kw1) = Inr cm \<and>
    exposure_outputs (AList.update ''Cm'' (Num cm) (AList.update ''Cv'' (Num cv) kw1)) =
       Inr kw2 \<and>
    freeze_outputs ''I'' kw2 = Inr outs \<and>
    inputs m = ins \<and> outputs m = outs \<and> scenario m = normalize_scenario sc \<and>
    normalize_scenario sc \<in> set mass_balance_get_scenarios \<and>
    map_of kw ''skips'' = Some (Names initial_skips) \<and>
    map_of kw ''T'' = Some (Num T) \<and> map_of kw ''G'' = Some (Num G) \<and>
    map_of kw ''MW'' = Some (Num MW) \<and> map_of kw ''X'' = Some (Num X) \<and>
    map_of kw ''VP'' = Some (Num VP) \<and> map_of kw ''Vm'' = Some (Num Vm) \<and>
    map_of kw ''Q'' =
       map_of (mass_balance_scenario_defaults (normalize_scenario sc) Q k' vz []) ''Q'' \<and>
    map_of kw ''k'' =
       map_of (mass_balance_scenario_defaults (normalize_scenario sc) Q k' vz []) ''k'' \<and>
    map_of kw ''Cv'' = None \<and> map_of kw ''Cm'' = None"
    using assms unfolding mass_balance_def Let_def
    apply (clarsimp simp: Inr_iffs)
    apply (intro exI conjI)
                       apply assumption+
                  apply (simp_all add: update_conv' mass_balance_scenario_defaults_frame
                    mass_balance_scenario_defaults_Q_k)
    done
  then show thesis
    using that by blast
qed

text \<open>
  C5. A call of \<open>mass_balance\<close> that returns an instance has resolved \<open>Q\<close> and \<open>k\<close> from
  the table of its five scenarios and holds the outputs
  \<open>Cv = min(170000 * T * G / (MW * Q * k), 1000000 * X * VP / 760)\<close> and
  \<open>Cm = Cv * MW / Vm\<close>; in the scenario \<open>'outdoor,worst-case'\<close> the ventilation rate is
  \<open>26400 * (60 * vz / 5280) ^ 3\<close>, which is 3300000 for \<open>vz = 440\<close>.
\<close>

theorem mass_balance_concentrations:
  assumes "mass_balance G MW VP X sc T Q k' Vm b h vz c = Inr m"
  shows "\<exists>Qr kr Cv.
     scenario m = normalize_scenario sc \<and> scenario m \<in> set mass_balance_get_scenarios \<and>
     (Qr, kr) =
       (if scenario m = ''indoor,typical'' then (3000, 0.5)
        else if scenario m = ''indoor,worst-case'' then (500, 0.1)
        else if scenario m = ''outdoor,typical'' then (237600, 0.5)
        else if scenario m = ''outdoor,worst-case'' then (26400 * (60 * vz / 5280) ^ 3, 0.1)
        else (Q, k')) \<and>
     map_of (inputs m) ''Q'' = Some (Num Qr) \<and>
     map_of (inputs m) ''k'' = Some (Num kr) \<and>
     Cv = min (170000 * T * G / (MW * Qr * kr)) (1000000 * X * VP / 760) \<and>
     map_of (outputs m) ''Cv'' = Some (Num Cv) \<and>
     map_of (outputs m) ''Cm'' = Some (Num (Cv * MW / Vm)) \<and>
     (scenario m = ''outdoor,worst-case'' \<and> vz = 440 \<longrightarrow> Qr = 3300000)"
  using assms
proof (cases rule: mass_balance_InrE)
  case (ok kw ins kw1 cv cm kw2 outs)
  define Qr where "Qr =
     (if normalize_scenario sc = ''indoor,typical'' then 3000
      else if normalize_scenario sc = ''indoor,worst-case'' then 500
      else if normalize_scenario sc = ''outdoor,typical'' then 237600
      else if normalize_scenario sc = ''outdoor,worst-case'' then 26400 * (60 * vz / 5280) ^ 3
      else Q)"
  define kr where "kr =
     (if normalize_scenario sc = ''indoor,typical'' then 0.5
      else if normalize_scenario sc = ''indoor,worst-case'' then 0.1
      else if normalize_scenario sc = ''outdoor,typical'' then 0.5
      else if normalize_scenario sc = ''outdoor,worst-case'' then 0.1
      else k')"
  let ?kwE = "AList.update ''Cm'' (Num cm) (AList.update ''Cv'' (Num cv) kw1)"
  note snap = snapshot_inputs_Inr(2) [OF ok(1) ok(10)]
  have Q: "map_of kw ''Q'' = Some (Num Qr)" and k: "map_of kw ''k'' = Some (Num kr)"
    using ok(17,18) mass_balance_scenario_defaults_Q_k [OF ok(9)]
    by (simp_all add: Qr_def kr_def)
  have inQ: "map_of ins ''Q'' = Some (Num Qr)"
    using tail_inputs [OF ok(1) ok(10), of "''Q''"] Q by (simp add: initial_skips_def)
  have ink: "map_of ins ''k'' = Some (Num kr)"
    using tail_inputs [OF ok(1) ok(10), of "''k''"] k by (simp add: initial_skips_def)
  have cv: "cv = min (170000 * T * G / (MW * Qr * kr)) (1000000 * X * VP / 760)"
    using ok(2) ok(11-16) Q k unfolding mass_balance_Cv_def
    by (auto simp: andthen_Inr_iff param_Inr_iff py_div_Inr_iff snap ac_simps)
  have cm: "cm = cv * MW / Vm"
    using ok(3) ok(13,16) unfolding mass_balance_Cm_def
    by (auto simp: andthen_Inr_iff param_Inr_iff py_div_Inr_iff snap update_conv' ac_simps)
  have frame: "map_of ?kwE ''skips'' = map_of kw1 ''skips''"
    by (simp add: update_conv')
  have outCv: "map_of outs ''Cv'' = Some (Num cv)"
    using tail_outputs [OF ok(1) ok(4) ok(5) frame ok(10), of "''Cv''"] ok(19)
    by (simp add: initial_skips_def update_conv')
  have outCm: "map_of outs ''Cm'' = Some (Num cm)"
    using tail_outputs [OF ok(1) ok(4) ok(5) frame ok(10), of "''Cm''"] ok(20)
    by (simp add: initial_skips_def update_conv')
  have tab: "(Qr, kr) =
       (if scenario m = ''indoor,typical'' then (3000, 0.5)
        else if scenario m = ''indoor,worst-case'' then (500, 0.1)
        else if scenario m = ''outdoor,typical'' then (237600, 0.5)
        else if scenario m = ''outdoor,worst-case'' then (26400 * (60 * vz / 5280) ^ 3, 0.1)
        else (Q, k'))"
    by (simp add: Qr_def kr_def ok(8))
  have vz: "scenario m = ''outdoor,worst-case'' \<and> vz = 440 \<longrightarrow> Qr = 3300000"
    by (simp add: Qr_def ok(8))
  have sc: "scenario m = normalize_scenario sc" "scenario m \<in> set mass_balance_get_scenarios"
    using ok(8,9) by simp_all
  have "scenario m = normalize_scenario sc \<and> scenario m \<in> set mass_balance_get_scenarios \<and>
     (Qr, kr) =
       (if scenario m = ''indoor,typical'' then (3000, 0.5)
        else if scenario m = ''indoor,worst-case'' then (500, 0.1)
        else if scenario m = ''outdoor,typical'' then (237600, 0.5)
        else if scenario m = ''outdoor,worst-case'' then (26400 * (60 * vz / 5280) ^ 3, 0.1)
        else (Q, k')) \<and>
     map_of (inputs m) ''Q'' = Some (Num Qr) \<and>
     map_of (inputs m) ''k'' = Some (Num kr) \<and>
     cv = min (170000 * T * G / (MW * Qr * kr)) (1000000 * X * VP / 760) \<and>
     map_of (outputs m) ''Cv'' = Some (Num cv) \<and>
     map_of (outputs m) ''Cm'' = Some (Num (cv * MW / Vm)) \<and>
     (scenario m = ''outdoor,worst-case'' \<and> vz = 440 \<longrightarrow> Qr = 3300000)"
    using sc tab vz inQ ink cv [symmetric] outCv outCm cm ok(6,7)
    by (intro conjI) (simp_all only:)
  then show ?thesis
    by blast
qed

text \<open>
  The witness: the call of the package's test script in the scenario
  \<open>'Outdoor, Worst-Case'\<close> with the wind speed \<open>vz = 440\<close> returns an instance.
\<close>

theorem mass_balance_concentrations_witness:
  "\<exists>m Cv. mass_balance 1 92.141 28.4 0.2 ''Outdoor, Worst-Case'' 298 3000 0.5 24.45 1.25 8 440
            default_common = Inr m \<and>
     scenario m = ''outdoor,worst-case'' \<and>
     map_of (inputs m) ''Q'' = Some (Num 3300000) \<and>
     map_of (inputs m) ''k'' = Some (Num 0.1) \<and>
     Cv = min (170000 * 298 * 1 / (92.141 * 3300000 * 0.1)) (1000000 * 0.2 * 28.4 / 760) \<and>
     map_of (outputs m) ''Cv'' = Some (Num Cv) \<and>
     map_of (outputs m) ''Cm'' = Some (Num (Cv * 92.141 / 24.45))"
proof -
  have "\<not> isl (mass_balance 1 92.141 28.4 0.2 ''Outdoor, Worst-Case'' 298 3000 0.5 24.45 1.25 8
          440 default_common)"
    by code_simp
  then obtain m where m: "mass_balance 1 92.141 28.4 0.2 ''Outdoor, Worst-Case'' 298 3000 0.5
      24.45 1.25 8 440 default_common = Inr m"
    by (cases "mass_balance 1 92.141 28.4 0.2 ''Outdoor, Worst-Case'' 298 3000 0.5 24.45 1.25 8
          440 default_common") simp_all
  have n: "normalize_scenario ''Outdoor, Worst-Case'' = ''outdoor,worst-case''"
    by code_simp
  from mass_balance_concentrations [OF m] obtain Qr kr Cv where
    sc: "scenario m = normalize_scenario ''Outdoor, Worst-Case''" and
    tab: "(Qr, kr) =
       (if scenario m = ''indoor,typical'' then (3000, 0.5)
        else if scenario m = ''indoor,worst-case'' then (500, 0.1)
        else if scenario m = ''outdoor,typical'' then (237600, 0.5)
        else if scenario m = ''outdoor,worst-case'' then (26400 * (60 * 440 / 5280) ^ 3, 0.1)
        else (3000, 0.5))" and
    inQ: "map_of (inputs m) ''Q'' = Some (Num Qr)" and
    ink: "map_of (inputs m) ''k'' = Some (Num kr)" and
    cv: "Cv = min (170000 * 298 * 1 / (92.141 * Qr * kr)) (1000000 * 0.2 * 28.4 / 760)" and
    outCv: "map_of (outputs m) ''Cv'' = Some (Num Cv)" and
    outCm: "map_of (outputs m) ''Cm'' = Some (Num (Cv * 92.141 / 24.45))"
    by blast
  have Qk: "Qr = 3300000" "kr = 0.1"
    using tab by (simp_all add: sc n)
  show ?thesis
    by (intro exI conjI)
       (rule m sc [unfolded n] inQ [unfolded Qk] ink [unfolded Qk] cv [unfolded Qk] outCv
          outCm)+
qed

section \<open>\<open>pel_limiting_vapors\<close> and its argument \<open>Ypel\<close>\<close>

lemma pel_limiting_vapors_InrE [consumes 1, case_names ok]:
  assumes "pel_limiting_vapors Cvk VP Ys MW VPpel Ypel MWpel X sc Vm b h c = Inr m"
  obtains kw ins kw1 cv cm kw2 outs where
    "snapshot_inputs kw = Inr (ins, kw1)"
    "pel_limiting_vapors_Cv kw1 = Inr cv"
    "pel_limiting_vapors_Cm (AList.update ''Cv'' (Num cv) kw1) = Inr cm"
    "exposure_outputs (AList.update ''Cm'' (Num cm) (AList.update ''Cv'' (Num cv) kw1)) =
       Inr kw2"
    "freeze_outputs ''I'' kw2 = Inr outs"
    "inputs m = ins" "outputs m = outs"
    "map_of kw ''skips'' = Some (Names initial_skips)"
    "map_of kw ''Cvk'' = Some (Num Cvk)" "map_of kw ''VP'' = Some (Num VP)"
    "map_of kw ''Ys'' = Some (Num Ys)" "map_of kw ''MW'' = Some (Num MW)"
    "map_of kw ''VPpel'' = Some (Num VPpel)" "map_of kw ''Ypel'' = Some (Num (1 - Ys))"
    "map_of kw ''MWpel'' = Some (Num MWpel)" "map_of kw ''X'' = Some (Num X)"
    "map_of kw ''Cv'' = None"
proof -
  have "\<exists>kw ins kw1 cv cm kw2 outs.
    snapshot_inputs kw = Inr (ins, kw1) \<and>
    pel_limiting_vapors_Cv kw1 = Inr cv \<and>
    pel_limiting_vapors_Cm (AList.update ''Cv'' (Num cv) kw1) = Inr cm \<and>
    exposure_outputs (AList.update ''Cm'' (Num cm) (AList.update ''Cv'' (Num cv) kw1)) =
       Inr kw2 \<and>
    freeze_outputs ''I'' kw2 = Inr outs \<and>
    inputs m = ins \<and> outputs m = outs \<and>
    map_of kw ''skips'' = Some (Names initial_skips) \<and>
    map_of kw ''Cvk'' = Some (Num Cvk) \<and> map_of kw ''VP'' = Some (Num VP) \<and>
    map_of kw ''Ys'' = Some (Num Ys) \<and> map_of kw ''MW'' = Some (Num MW) \<and>
    map_of kw ''VPpel'' = Some (Num VPpel) \<and> map_of kw ''Ypel'' = Some (Num (1 - Ys)) \<and>
    map_of kw ''MWpel'' = Some (Num MWpel) \<and> map_of kw ''X'' = Some (Num X) \<and>
    map_of kw ''Cv'' = None"
    using assms unfolding pel_limiting_vapors_def Let_def
    apply (clarsimp simp: Inr_iffs)
    apply (intro exI conjI)
                    apply assumption+
               apply (simp_all add: update_conv')
    done
  then show thesis
    using that by blast
qed

text \<open>
  C9. \<open>pel_limiting_vapors\<close> does not depend on its argument \<open>Ypel\<close>: two calls that differ
  in it alone have the same result. An instance it returns holds \<open>Ypel = 1 - Ys\<close> in its
  inputs, and its output \<open>Cv\<close> is computed with that value.
\<close>

theorem pel_limiting_vapors_Ypel:
  "pel_limiting_vapors Cvk VP Ys MW VPpel Ypel MWpel X sc Vm b h c =
     pel_limiting_vapors Cvk VP Ys MW VPpel Ypel' MWpel X sc Vm b h c \<and>
   (\<forall>m. pel_limiting_vapors Cvk VP Ys MW VPpel Ypel MWpel X sc Vm b h c = Inr m \<longrightarrow>
      map_of (inputs m) ''Ypel'' = Some (Num (1 - Ys)) \<and>
      map_of (outputs m) ''Cv'' =
        Some (Num (min (Cvk * (VP * Ys / MW) / (VPpel * (1 - Ys) / MWpel))
                       (1000000 * X * VP / 760))))"
proof (intro conjI allI impI)
  show "pel_limiting_vapors Cvk VP Ys MW VPpel Ypel MWpel X sc Vm b h c =
        pel_limiting_vapors Cvk VP Ys MW VPpel Ypel' MWpel X sc Vm b h c"
    by (simp only: pel_limiting_vapors_def)
next
  fix m
  assume "pel_limiting_vapors Cvk VP Ys MW VPpel Ypel MWpel X sc Vm b h c = Inr m"
  then have "map_of (inputs m) ''Ypel'' = Some (Num (1 - Ys)) \<and>
      map_of (outputs m) ''Cv'' =
        Some (Num (min (Cvk * (VP * Ys / MW) / (VPpel * (1 - Ys) / MWpel))
                       (1000000 * X * VP / 760)))"
  proof (cases rule: pel_limiting_vapors_InrE)
    case (ok kw ins kw1 cv cm kw2 outs)
    let ?kwE = "AList.update ''Cm'' (Num cm) (AList.update ''Cv'' (Num cv) kw1)"
    note snap = snapshot_inputs_Inr(2) [OF ok(1) ok(8)]
    have inY: "map_of ins ''Ypel'' = Some (Num (1 - Ys))"
      using tail_inputs [OF ok(1) ok(8), of "''Ypel''"] ok(14)
      by (simp add: initial_skips_def)
    have p: "param kw1 ''Cvk'' = Inr Cvk" "param kw1 ''VP'' = Inr VP"
      "param kw1 ''Ys'' = Inr Ys" "param kw1 ''MW'' = Inr MW"
      "param kw1 ''VPpel'' = Inr VPpel" "param kw1 ''Ypel'' = Inr (1 - Ys)"
      "param kw1 ''MWpel'' = Inr MWpel" "param kw1 ''X'' = Inr X"
      using ok(9-16) by (simp_all add: param_Inr_iff snap)
    have "andthen (py_div (VP * Ys) MW) (\<lambda>r1.
          andthen (py_div (VPpel * (1 - Ys)) MWpel) (\<lambda>r2.
          andthen (py_div (Cvk * r1) r2) (\<lambda>r.
          Inr (min r (1000000 * X * VP / 760))))) = Inr cv"
      using ok(2) unfolding pel_limiting_vapors_Cv_def p by (simp only: andthen_Inr)
    then have "\<exists>r1 r2 r. r1 = VP * Ys / MW \<and> r2 = VPpel * (1 - Ys) / MWpel \<and>
        r = Cvk * r1 / r2 \<and> min r (1000000 * X * VP / 760) = cv"
      by (simp only: andthen_Inr_iff py_div_Inr_iff sum.inject) blast
    then have cv: "cv = min (Cvk * (VP * Ys / MW) / (VPpel * (1 - Ys) / MWpel))
                       (1000000 * X * VP / 760)"
      by (elim exE conjE) (simp only:)
    have frame: "map_of ?kwE ''skips'' = map_of kw1 ''skips''"
      by (simp add: update_conv')
    have outCv: "map_of outs ''Cv'' = Some (Num cv)"
      using tail_outputs [OF ok(1) ok(4) ok(5) frame ok(8), of "''Cv''"] ok(17)
      by (simp add: initial_skips_def update_conv')
    show ?thesis
      using inY outCv cv ok(6,7) by simp
  qed
  then show "map_of (inputs m) ''Ypel'' = Some (Num (1 - Ys))"
    and "map_of (outputs m) ''Cv'' =
        Some (Num (min (Cvk * (VP * Ys / MW) / (VPpel * (1 - Ys) / MWpel))
                       (1000000 * X * VP / 760)))"
    by simp_all
qed

text \<open>
  The witness: the call of the package's test script, with \<open>Ys = 0.4\<close> and the argument
  \<open>Ypel = 0.9\<close>, returns an instance whose inputs hold \<open>Ypel = 0.6\<close>.
\<close>

theorem pel_limiting_vapors_Ypel_witness:
  "\<exists>m. pel_limiting_vapors 500 23.7564 0.4 18.015 28.4 0.9 92.141 0.5 ''user'' 24.45 1.25 8
          default_common = Inr m \<and>
     map_of (inputs m) ''Ypel'' = Some (Num 0.6) \<and>
     map_of (outputs m) ''Cv'' =
       Some (Num (min (500 * (23.7564 * 0.4 / 18.015) / (28.4 * 0.6 / 92.141))
                      (1000000 * 0.5 * 23.7564 / 760)))"
proof -
  have "\<not> isl (pel_limiting_vapors 500 23.7564 0.4 18.015 28.4 0.9 92.141 0.5 ''user'' 24.45
          1.25 8 default_common)"
    by code_simp
  then obtain m where m: "pel_limiting_vapors 500 23.7564 0.4 18.015 28.4 0.9 92.141 0.5
      ''user'' 24.45 1.25 8 default_common = Inr m"
    by (cases "pel_limiting_vapors 500 23.7564 0.4 18.015 28.4 0.9 92.141 0.5 ''user'' 24.45
          1.25 8 default_common") simp_all
  note f = pel_limiting_vapors_Ypel [THEN conjunct2, rule_format, OF m]
  have "pel_limiting_vapors 500 23.7564 0.4 18.015 28.4 0.9 92.141 0.5 ''user'' 24.45 1.25 8
          default_common = Inr m \<and>
     map_of (inputs m) ''Ypel'' = Some (Num 0.6) \<and>
     map_of (outputs m) ''Cv'' =
       Some (Num (min (500 * (23.7564 * 0.4 / 18.015) / (28.4 * 0.6 / 92.141))
                      (1000000 * 0.5 * 23.7564 / 760)))"
    using m f by simp
  then show ?thesis
    by (rule exI [of _ m])
qed

section \<open>The argument \<open>KCk\<close> of \<open>automobile_spray_coating\<close> and \<open>uv_roll_coating\<close>\<close>

lemma normalize_scenario_user: "normalize_scenario ''user'' = ''user''"
  by code_simp

lemma automobile_spray_coating_scenario_defaults_KCk:
  "sc \<in> set automobile_spray_coating_get_scenarios \<Longrightarrow>
   automobile_spray_coating_scenario_defaults sc KCk kw =
   automobile_spray_coating_scenario_defaults sc KCk' kw"
  by (auto simp: automobile_spray_coating_scenario_defaults_def
                 automobile_spray_coating_get_scenarios_def)

lemma uv_roll_coating_scenario_defaults_KCk:
  "sc \<in> set uv_roll_coating_get_scenarios \<Longrightarrow>
   uv_roll_coating_scenario_defaults sc KCk kw = uv_roll_coating_scenario_defaults sc KCk' kw"
  by (auto simp: uv_roll_coating_scenario_defaults_def uv_roll_coating_get_scenarios_def)

lemma automobile_spray_coating_ignores_KCk:
  "automobile_spray_coating sc KCk b h c = automobile_spray_coating sc KCk' b h c"
  unfolding automobile_spray_coating_def Let_def
  apply (rule andthen_cong_fun)
  apply (cases "normalize_scenario sc \<in> set automobile_spray_coating_get_scenarios")
   apply (simp_all only: if_True if_False not_True_eq_False not_False_eq_True
     automobile_spray_coating_scenario_defaults_KCk [of _ KCk _ KCk'])
  done

lemma uv_roll_coating_ignores_KCk:
  "uv_roll_coating Ymist sc KCk Ys Ysf b h c = uv_roll_coating Ymist sc KCk' Ys Ysf b h c"
  unfolding uv_roll_coating_def Let_def
  apply (rule andthen_cong_fun)
  apply (cases "normalize_scenario sc \<in> set uv_roll_coating_get_scenarios")
   apply (simp_all only: if_True if_False not_True_eq_False not_False_eq_True
     uv_roll_coating_scenario_defaults_KCk [of _ KCk _ KCk'])
  done

text \<open>
  C10. \<open>'user'\<close> is not a scenario of \<open>automobile_spray_coating\<close> or of \<open>uv_roll_coating\<close>,
  a call with \<open>scenario='user'\<close> raises, and the result of either constructor does not
  depend on its argument \<open>KCk\<close>.
\<close>

theorem KCk_never_read:
  "''user'' \<notin> set automobile_spray_coating_get_scenarios \<and>
   ''user'' \<notin> set uv_roll_coating_get_scenarios \<and>
   isl (automobile_spray_coating ''user'' KCk b h c) \<and>
   isl (uv_roll_coating Ymist ''user'' KCk Ys Ysf b h c) \<and>
   automobile_spray_coating sc KCk b h c = automobile_spray_coating sc KCk' b h c \<and>
   uv_roll_coating Ymist sc KCk Ys Ysf b h c = uv_roll_coating Ymist sc KCk' Ys Ysf b h c"
proof -
  have u: "''user'' \<notin> set automobile_spray_coating_get_scenarios"
    "''user'' \<notin> set uv_roll_coating_get_scenarios"
    by (simp_all add: automobile_spray_coating_get_scenarios_def
                      uv_roll_coating_get_scenarios_def)
  have "isl (automobile_spray_coating ''user'' KCk b h c)"
    unfolding automobile_spray_coating_def
    by (rule andthen_isl) (simp add: normalize_scenario_user u raise_ScenarioException_def)
  moreover have "isl (uv_roll_coating Ymist ''user'' KCk Ys Ysf b h c)"
    unfolding uv_roll_coating_def
    by (rule andthen_isl) (simp add: normalize_scenario_user u raise_ScenarioException_def)
  ultimately show ?thesis
    using u automobile_spray_coating_ignores_KCk [of sc KCk b h c KCk']
      uv_roll_coating_ignores_KCk [of Ymist sc KCk Ys Ysf b h c KCk']
    by simp
qed

end
